theory Spec2Isabelle
  imports Complex_Main "HOL-Library.Sublist" "HOL-Library.Word"
begin

section \<open>Python primitives used by the avatar pipeline\<close>

text \<open>
  The program is Python 3.10+. Its strings are modelled as \<open>string\<close> restricted to
  ASCII characters, its unbounded integers as \<open>int\<close>, and every exception it can raise
  as a value of the type \<open>error\<close> below, returned in the left summand of a sum.
\<close>

subsection \<open>Characters and strings\<close>

text \<open>\<open>ord(c)\<close>.\<close>

definition ord_char :: "char \<Rightarrow> nat" where
  "ord_char c = of_char c"

definition is_digit :: "char \<Rightarrow> bool" where
  "is_digit c = (48 \<le> ord_char c \<and> ord_char c \<le> 57)"

text \<open>\<open>Py_ISSPACE\<close>: space, tab, line feed, vertical tab, form feed, carriage return.\<close>

definition is_space :: "char \<Rightarrow> bool" where
  "is_space c = (c = CHR '' '' \<or> (9 \<le> ord_char c \<and> ord_char c \<le> 13))"

text \<open>\<open>str.lower\<close> on ASCII text.\<close>

definition lower_char :: "char \<Rightarrow> char" where
  "lower_char c =
     (if 65 \<le> ord_char c \<and> ord_char c \<le> 90 then char_of (ord_char c + 32) else c)"

definition lower :: "string \<Rightarrow> string" where
  "lower s = map lower_char s"

text \<open>\<open>sub in s\<close> for strings: \<open>sub\<close> occurs as a contiguous piece of \<open>s\<close>.\<close>

fun contains :: "string \<Rightarrow> string \<Rightarrow> bool" where
  "contains sub [] = (sub = [])"
| "contains sub (c # cs) = (prefix sub (c # cs) \<or> contains sub cs)"

text \<open>\<open>str.strip()\<close> with no argument.\<close>

definition strip :: "string \<Rightarrow> string" where
  "strip s = rev (dropWhile is_space (rev (dropWhile is_space s)))"

text \<open>\<open>str(i)\<close> and \<open>f"{i}"\<close> for an integer: decimal digits, a minus sign when negative.\<close>

definition digit_char :: "nat \<Rightarrow> char" where
  "digit_char d = char_of (48 + d)"

function digits_of :: "nat \<Rightarrow> string" where
  "digits_of n = (if n < 10 then [digit_char n] else digits_of (n div 10) @ [digit_char (n mod 10)])"
  by pat_completeness auto
termination
  by (relation "measure id") auto

declare digits_of.simps [simp del]

definition str_int :: "int \<Rightarrow> string" where
  "str_int i = (if i < 0 then CHR ''-'' # digits_of (nat (- i)) else digits_of (nat i))"

subsection \<open>Exceptions\<close>

text \<open>
  A parsed JSON value. A finite number is kept exactly; Python's parser also accepts the
  literals \<open>NaN\<close>, \<open>Infinity\<close> and \<open>-Infinity\<close> (\<open>JInfinity True\<close> is the negative
  one).
\<close>

datatype json =
    JNull
  | JBool bool
  | JNum rat
  | JNaN
  | JInfinity bool
  | JStr string
  | JArr "json list"
  | JObj "(string \<times> json) list"

text \<open>
  The exceptions of the pipeline. \<open>InvalidTokenError\<close>, \<open>UnknownUserError\<close> and
  \<open>DiscordAPIError\<close> are the program's own (module \<open>exceptions\<close>), constructed with
  the arguments shown at their raise sites; the others are Python's, requests' and
  OpenCV's.
\<close>

datatype error =
    ConnectionError
  | InvalidTokenError string json
  | UnknownUserError string json
  | DiscordAPIError string json
  | KeyError string
  | TypeError
  | AttributeError
  | ValueError
  | OverflowError
  | RecursionError
  | JSONDecodeError
  | TimeoutError
  | Cv2Error

subsection \<open>The grammar accepted by \<open>float(str)\<close>\<close>

text \<open>
  CPython's \<open>float\<close> on a string: underscores are allowed only between two digits and
  are removed; leading and trailing whitespace is removed; then an optional sign is
  followed either by \<open>inf\<close>, \<open>infinity\<close> or \<open>nan\<close> in any letter case, or by a
  decimal number with at least one digit in its integer or fraction part and an
  optional exponent with at least one digit. Anything else raises \<open>ValueError\<close>.
\<close>

fun underscores_ok :: "char \<Rightarrow> string \<Rightarrow> bool" where
  "underscores_ok prev [] = (prev \<noteq> CHR ''_'')"
| "underscores_ok prev (c # cs) =
     (if c = CHR ''_'' then is_digit prev \<and> underscores_ok c cs
      else if prev = CHR ''_'' \<and> \<not> is_digit c then False
      else underscores_ok c cs)"

definition drop_sign :: "string \<Rightarrow> string" where
  "drop_sign s = (case s of [] \<Rightarrow> [] | c # cs \<Rightarrow> if c = CHR ''+'' \<or> c = CHR ''-'' then cs else s)"

definition is_inf_or_nan :: "string \<Rightarrow> bool" where
  "is_inf_or_nan s = (lower s = ''inf'' \<or> lower s = ''infinity'' \<or> lower s = ''nan'')"

definition exponent_ok :: "string \<Rightarrow> bool" where
  "exponent_ok s =
     (case s of [] \<Rightarrow> True
      | c # cs \<Rightarrow>
          (c = CHR ''e'' \<or> c = CHR ''E'') \<and> drop_sign cs \<noteq> [] \<and> list_all is_digit (drop_sign cs))"

definition decimal_ok :: "string \<Rightarrow> bool" where
  "decimal_ok s =
     (let ip = takeWhile is_digit s;
          r1 = dropWhile is_digit s;
          r2 = (case r1 of [] \<Rightarrow> [] | c # cs \<Rightarrow> if c = CHR ''.'' then cs else r1);
          fp = (if r2 = r1 then [] else takeWhile is_digit r2);
          r3 = (if r2 = r1 then r1 else dropWhile is_digit r2)
      in (ip \<noteq> [] \<or> fp \<noteq> []) \<and> exponent_ok r3)"

definition float_grammar :: "string \<Rightarrow> bool" where
  "float_grammar s =
     (underscores_ok (CHR 0x00) s \<and>
      (let t = drop_sign (strip (filter (\<lambda>c. c \<noteq> CHR ''_'') s))
       in is_inf_or_nan t \<or> decimal_ok t))"

text \<open>\<open>float(val)\<close> for a string, with the value it computes left out: the program only
  asks whether the call raises.\<close>

definition py_float :: "string \<Rightarrow> error + unit" where
  "py_float val = (if float_grammar val then Inr () else Inl ValueError)"

section \<open>utils.py\<close>

text \<open>
  \<^verbatim>\<open>
  def is_number(val):
      try:
          float(val)
          return True
      except ValueError:
          return False
  \<close>
\<close>

definition is_number :: "string \<Rightarrow> bool" where
  "is_number val = (case py_float val of Inr _ \<Rightarrow> True | Inl _ \<Rightarrow> False)"

subsection \<open>Paths\<close>

text \<open>
  A \<open>pathlib\<close> path is its anchor (drive and root, empty for a relative path) and its
  components. The program runs on Windows (it drives the console through
  \<open>ctypes.windll\<close>), where both the slash and the backslash separate components.
\<close>

datatype path = Path (anchor: string) (parts: "string list")

definition is_sep :: "char \<Rightarrow> bool" where
  "is_sep c = (c = CHR ''/'' \<or> c = CHR 0x5C)"

fun split_seps :: "string \<Rightarrow> string list" where
  "split_seps [] = [[]]"
| "split_seps (c # cs) =
     (if is_sep c then [] # split_seps cs
      else (case split_seps cs of [] \<Rightarrow> [[c]] | x # xs \<Rightarrow> (c # x) # xs))"

text \<open>
  \<open>Path(s)\<close> for a string that names neither a drive nor a root: empty components and
  \<open>.\<close> components are dropped. Every file name the program builds starts with the
  decimal rendering of an integer followed by an underscore, so it names neither.
\<close>

definition path_of_str :: "string \<Rightarrow> path" where
  "path_of_str s = Path [] (filter (\<lambda>x. x \<noteq> [] \<and> x \<noteq> ''.'') (split_seps s))"

text \<open>\<open>p.joinpath(q)\<close>: an anchored \<open>q\<close> replaces \<open>p\<close>. (An anchor is taken whole: a
  \<open>q\<close> with a root and no drive, which would keep the drive of \<open>p\<close>, is not told apart.)\<close>

definition joinpath :: "path \<Rightarrow> path \<Rightarrow> path" where
  "joinpath p q = (if anchor q \<noteq> [] then q else Path (anchor p) (parts p @ parts q))"

definition name :: "path \<Rightarrow> string" where
  "name p = (if parts p = [] then [] else last (parts p))"

text \<open>\<open>s.rfind(c)\<close>: the index of the last occurrence, \<open>-1\<close> when there is none.\<close>

definition rfind :: "char \<Rightarrow> string \<Rightarrow> int" where
  "rfind c s =
     (if c \<in> set s then int (length s) - 1 - int (length (takeWhile (\<lambda>x. x \<noteq> c) (rev s)))
      else - 1)"

text \<open>
  \<open>p.stem\<close> and \<open>p.suffix\<close> (Python 3.10 and 3.11): the name is cut at its last dot
  when that dot is neither its first nor its last character.
\<close>

definition stem :: "path \<Rightarrow> string" where
  "stem p =
     (let i = rfind (CHR ''.'') (name p)
      in if 0 < i \<and> i < int (length (name p)) - 1 then take (nat i) (name p) else name p)"

definition suffix_of :: "path \<Rightarrow> string" where
  "suffix_of p =
     (let i = rfind (CHR ''.'') (name p)
      in if 0 < i \<and> i < int (length (name p)) - 1 then drop (nat i) (name p) else [])"

text \<open>
  The constants \<open>MAIN_DIR\<close> and \<open>AVATAR_DIR\<close> depend on where the program is
  installed; they are taken as given, already as paths.
\<close>

record env =
  MAIN_DIR :: path
  AVATAR_DIR :: path

text \<open>
  \<^verbatim>\<open>
  def abs_dir(*rels):
      return MAIN_DIR.joinpath(*rels)
  \<close>
\<close>

definition abs_dir :: "env \<Rightarrow> path list \<Rightarrow> path" where
  "abs_dir e rels = foldl joinpath (MAIN_DIR e) rels"

text \<open>
  \<^verbatim>\<open>
  def get_avatar_dir(uid=None, *, og_dir=None, effect=0):
      if uid is not None:
          return abs_dir(AVATAR_DIR, f"{effect}_{uid}.png")
      if og_dir is None or og_dir.stem == og_dir.name:
          raise ValueError("When uid is None, og_dir must lead to a file.")
      return abs_dir(AVATAR_DIR, f"{effect}_{og_dir.name[2:]}")
  \<close>
\<close>

definition get_avatar_dir :: "env \<Rightarrow> string option \<Rightarrow> path option \<Rightarrow> int \<Rightarrow> error + path" where
  "get_avatar_dir e uid og_dir effect =
     (case uid of
        Some u \<Rightarrow> Inr (abs_dir e [AVATAR_DIR e, path_of_str (str_int effect @ ''_'' @ u @ ''.png'')])
      | None \<Rightarrow>
          (case og_dir of
             None \<Rightarrow> Inl ValueError
           | Some d \<Rightarrow>
               if stem d = name d then Inl ValueError
               else Inr (abs_dir e
                      [AVATAR_DIR e, path_of_str (str_int effect @ ''_'' @ drop 2 (name d))])))"

text \<open>Modelled from the spec: \<open>get_avatar_path\<close>, which \<open>client.py\<close> imports from
  \<open>utils\<close> and which is not in the sources. The downloader writes to "the effect-0
  cache path for that identifier", that is \<open>get_avatar_dir(uid)\<close> with the default
  effect.\<close>

definition get_avatar_path :: "env \<Rightarrow> string \<Rightarrow> path" where
  "get_avatar_path e uid = abs_dir e [AVATAR_DIR e, path_of_str (str_int 0 @ ''_'' @ uid @ ''.png'')]"

section \<open>The world the pipeline acts on\<close>

text \<open>
  The lookup endpoint and the CDN are outside the program: each is the sequence of
  replies it will give to the requests still to come, and a request takes the first.
  The file system maps a path to the bytes stored there. Every request, sleep and
  file write is recorded, in order, in \<open>trace\<close>.

  A reply of the lookup endpoint is what \<open>requests.get\<close> and \<open>response.json()\<close> make
  of it: a connection error or read timeout, a body that is not JSON, or the parsed
  JSON value (an object is the association list of the parsed dictionary). A reply of
  the CDN is what \<open>urlopen\<close> and \<open>req.read()\<close> make of it.
\<close>

type_synonym bytes = "8 word list"

datatype lookup_reply = Transport_failure | Not_json | Json json

datatype cdn_reply = URLError | Read_timeout | Cdn_body bytes

text \<open>
  The string \<open>'https://cdn.discordapp.com/avatars/{}/{}.png?size={}'.format(uid, h, size)\<close>,
  kept as its three arguments. It is never empty, so it is always true in a condition.
\<close>

datatype url = Avatar_url string json int

datatype event =
    Api_get string string
  | Slept rat
  | Cdn_get url
  | File_write path

text \<open>
  The interpreter bounds the depth of nested calls and raises \<open>RecursionError\<close> beyond
  it. \<open>stack_room\<close> is the number of further nested calls of \<open>fetch_avatar_url\<close>,
  each with the calls it makes in turn, that fit under that bound (about 980 when the
  resolver is called from the top of a program).
\<close>

record world =
  api :: "nat \<Rightarrow> lookup_reply"
  cdn :: "nat \<Rightarrow> cdn_reply"
  fs :: "path \<rightharpoonup> bytes"
  trace :: "event list"
  stack_room :: nat

text \<open>
  \<open>time.sleep(secs)\<close> first converts the length to a signed 64-bit count of
  nanoseconds, rounding away from zero, and raises \<open>OverflowError\<close> when it does not
  fit; then it raises \<open>ValueError\<close> on a negative length. \<open>sleep_max\<close> is the longest
  length that fits. (The rounding of a floating-point length next to that bound is not
  modelled.)
\<close>

definition sleep_max :: rat where
  "sleep_max = (2 ^ 63 - 1) / 10 ^ 9"

definition sleep_min :: rat where
  "sleep_min = - (2 ^ 63) / 10 ^ 9"

definition time_sleep :: "rat \<Rightarrow> world \<Rightarrow> (error + unit) \<times> world" where
  "time_sleep secs w =
     (if secs < sleep_min \<or> sleep_max < secs then (Inl OverflowError, w)
      else if secs < 0 then (Inl ValueError, w)
      else (Inr (), w\<lparr>trace := trace w @ [Slept secs]\<rparr>))"

text \<open>
  \<open>time.sleep(body['retry_after'])\<close>: the key may be missing; a finite JSON number is
  passed on as it is, \<open>true\<close> and \<open>false\<close> are the integers 1 and 0, an infinity
  does not fit the clock, \<open>NaN\<close> is an invalid value, anything else is not a number.
\<close>

definition sleep_retry_after :: "(string \<times> json) list \<Rightarrow> world \<Rightarrow> (error + unit) \<times> world" where
  "sleep_retry_after body w =
     (case map_of body ''retry_after'' of
        None \<Rightarrow> (Inl (KeyError ''retry_after''), w)
      | Some (JNum d) \<Rightarrow> time_sleep d w
      | Some (JBool b) \<Rightarrow> time_sleep (if b then 1 else 0) w
      | Some JNaN \<Rightarrow> (Inl ValueError, w)
      | Some (JInfinity neg) \<Rightarrow> (Inl OverflowError, w)
      | Some _ \<Rightarrow> (Inl TypeError, w))"

text \<open>\<open>requests.get\<close> on the lookup endpoint: the request is recorded and the endpoint
  moves on to its next reply.\<close>

definition api_request :: "string \<Rightarrow> string \<Rightarrow> world \<Rightarrow> lookup_reply \<times> world" where
  "api_request uid api_token w =
     (api w 0, w\<lparr>api := (\<lambda>n. api w (Suc n)), trace := trace w @ [Api_get uid api_token]\<rparr>)"

definition cdn_request :: "url \<Rightarrow> world \<Rightarrow> cdn_reply \<times> world" where
  "cdn_request u w =
     (cdn w 0, w\<lparr>cdn := (\<lambda>n. cdn w (Suc n)), trace := trace w @ [Cdn_get u]\<rparr>)"

subsection \<open>OpenCV\<close>

text \<open>
  The codecs and the colour conversions of OpenCV are taken as given: how a non-empty
  buffer decodes as it is stored, with the flag \<open>-1\<close> (\<open>decode_unchanged\<close>); the
  conversion that the default flag of \<open>imread\<close> applies to the stored image, to three
  colour channels of 8 bits, which drops an alpha channel (\<open>to_color\<close>); how an image
  encodes for a file extension (\<open>None\<close> when no writer knows the extension); and the
  conversion \<open>COLOR_BGR2GRAY\<close> (\<open>None\<close> when it rejects the image). A Python value
  that is an image or \<open>None\<close> is an \<open>'img option\<close>.
\<close>

record 'img cv2 =
  decode_unchanged :: "bytes \<Rightarrow> 'img option"
  to_color :: "'img \<Rightarrow> 'img"
  encode :: "string \<Rightarrow> 'img \<Rightarrow> bytes option"
  bgr2gray :: "'img \<Rightarrow> 'img option"

text \<open>\<open>cv2.imdecode(arr, -1)\<close>: an empty buffer fails an assertion; bytes that are not an
  image give \<open>None\<close>.\<close>

definition imdecode :: "'img cv2 \<Rightarrow> bytes \<Rightarrow> error + 'img option" where
  "imdecode cv buf = (if buf = [] then Inl Cv2Error else Inr (decode_unchanged cv buf))"

text \<open>\<open>cv2.imread(path)\<close>, with its default flag: \<open>None\<close> when the file is missing,
  empty or not an image, otherwise the stored image converted to colour.\<close>

definition imread :: "'img cv2 \<Rightarrow> path \<Rightarrow> world \<Rightarrow> 'img option" where
  "imread cv p w =
     (case fs w p of
        None \<Rightarrow> None
      | Some buf \<Rightarrow> if buf = [] then None else map_option (to_color cv) (decode_unchanged cv buf))"

text \<open>
  \<open>cv2.imwrite(path, img)\<close>: raises on \<open>None\<close> and on an extension without a writer,
  otherwise stores the encoded image. The directory is taken to exist and to be
  writable.
\<close>

definition imwrite :: "'img cv2 \<Rightarrow> path \<Rightarrow> 'img option \<Rightarrow> world \<Rightarrow> (error + unit) \<times> world" where
  "imwrite cv p img w =
     (case img of
        None \<Rightarrow> (Inl Cv2Error, w)
      | Some i \<Rightarrow>
          (case encode cv (suffix_of p) i of
             None \<Rightarrow> (Inl Cv2Error, w)
           | Some buf \<Rightarrow> (Inr (), w\<lparr>fs := (fs w)(p \<mapsto> buf), trace := trace w @ [File_write p]\<rparr>)))"

text \<open>\<open>cv2.cvtColor(img, cv2.COLOR_BGR2GRAY)\<close>.\<close>

definition cvtColor_gray :: "'img cv2 \<Rightarrow> 'img option \<Rightarrow> error + 'img option" where
  "cvtColor_gray cv img =
     (case img of
        None \<Rightarrow> Inl Cv2Error
      | Some i \<Rightarrow> (case bgr2gray cv i of None \<Rightarrow> Inl Cv2Error | Some g \<Rightarrow> Inr (Some g)))"

section \<open>client.py\<close>

text \<open>
  \<^verbatim>\<open>
  def fetch_avatar_url(uid, api_token, *, size):
      if not is_number(uid):
          return None
      try:
          header = {'Authorization': f'Bot {api_token}'}
          response = requests.get(
              f'https://discord.com/api/v9/users/{uid}', headers=header, timeout=10)
      except (requests.exceptions.ConnectionError,
              requests.exceptions.ReadTimeout) as e:
          raise ConnectionError from e
      try:
          return 'https://cdn.discordapp.com/avatars/{}/{}.png?size={}'.format(
              uid, response.json()['avatar'], size)
      except KeyError as e:
          msg = response.json()['message'].lower()
          if '401: unauthorized' in msg:
              raise InvalidTokenError(api_token, response.json()) from e
          elif 'limit' in msg:
              time.sleep(response.json()['retry_after'])
              fetch_avatar_url(uid, api_token, size=size)
          elif 'unknown user' in msg:
              raise UnknownUserError(uid, response.json()) from e
          else:
              raise DiscordAPIError(api_token, response.json()) from e
  \<close>
  The function calls itself for as long as the endpoint answers with a rate limit and
  the interpreter's stack has room; when the room is used up the nested call raises
  \<open>RecursionError\<close>, which no handler on the way catches. The model raises it at the
  call, with the world as it is then; where inside the nested call the interpreter
  raises it depends on the depth of the library's own calls. The result is the
  exception or return value together with the world the call leaves (\<open>None\<close> would
  be a call that does not return; \<open>fetch_avatar_url_returns\<close> shows there is none).
  The room is given back when the nested call is over.
\<close>

partial_function (option) fetch_avatar_url ::
  "string \<Rightarrow> string \<Rightarrow> int \<Rightarrow> world \<Rightarrow> ((error + url option) \<times> world) option" where
  "fetch_avatar_url uid api_token sz w =
     (if \<not> is_number uid then Some (Inr None, w)
      else
        (case api_request uid api_token w of
           (Transport_failure, w1) \<Rightarrow> Some (Inl ConnectionError, w1)
         | (Not_json, w1) \<Rightarrow> Some (Inl JSONDecodeError, w1)
         | (Json (JObj body), w1) \<Rightarrow>
             (case map_of body ''avatar'' of
                Some h \<Rightarrow> Some (Inr (Some (Avatar_url uid h sz)), w1)
              | None \<Rightarrow>
                  (case map_of body ''message'' of
                     None \<Rightarrow> Some (Inl (KeyError ''message''), w1)
                   | Some (JStr m) \<Rightarrow>
                       (let msg = lower m in
                        if contains ''401: unauthorized'' msg then
                          Some (Inl (InvalidTokenError api_token (JObj body)), w1)
                        else if contains ''limit'' msg then
                          (case sleep_retry_after body w1 of
                             (Inl e, w2) \<Rightarrow> Some (Inl e, w2)
                           | (Inr _, w2) \<Rightarrow>
                               if stack_room w2 = 0 then Some (Inl RecursionError, w2)
                               else
                                 Option.bind
                                   (fetch_avatar_url uid api_token sz
                                      (w2\<lparr>stack_room := stack_room w2 - 1\<rparr>))
                                   (\<lambda>(r, w3). case r of
                                        Inl e \<Rightarrow> Some (Inl e, w3\<lparr>stack_room := stack_room w2\<rparr>)
                                      | Inr _ \<Rightarrow> Some (Inr None, w3\<lparr>stack_room := stack_room w2\<rparr>)))
                        else if contains ''unknown user'' msg then
                          Some (Inl (UnknownUserError uid (JObj body)), w1)
                        else Some (Inl (DiscordAPIError api_token (JObj body)), w1))
                   | Some _ \<Rightarrow> Some (Inl AttributeError, w1)))
         | (Json _, w1) \<Rightarrow> Some (Inl TypeError, w1)))"

declare fetch_avatar_url.simps [code]

text \<open>
  \<^verbatim>\<open>
  def download_avatar(uid, api_token, size):
      img_path = get_avatar_path(uid)
      try:
          time.sleep(0.01)
          if avatar_url := fetch_avatar_url(uid, api_token, size=size):
              print('\033[A\033[2K' + avatar_url)
              req = urlopen(Request(
                  avatar_url, headers={'User-Agent': 'Mozilla/5.0'}), timeout=10)
              arr = np.asarray(bytearray(req.read()), dtype=np.uint8)
              img = cv2.imdecode(arr, -1)
              cv2.imwrite(str(img_path), img)
      except URLError as e:
          raise ConnectionError from e
  \<close>
  None of the exceptions of \<open>fetch_avatar_url\<close>, \<open>imdecode\<close> and \<open>imwrite\<close> is a
  \<open>URLError\<close>, so they pass through the handler unchanged. Printing to the console is
  not recorded.
\<close>

definition download_avatar ::
  "'img cv2 \<Rightarrow> env \<Rightarrow> string \<Rightarrow> string \<Rightarrow> int \<Rightarrow> world \<Rightarrow> ((error + unit) \<times> world) option" where
  "download_avatar cv e uid api_token sz w =
     (let img_path = get_avatar_path e uid in
      case time_sleep (1 / 100) w of
        (Inl err, w0) \<Rightarrow> Some (Inl err, w0)
      | (Inr _, w0) \<Rightarrow>
          Option.bind (fetch_avatar_url uid api_token sz w0)
            (\<lambda>(r, w1). case r of
                 Inl err \<Rightarrow> Some (Inl err, w1)
               | Inr None \<Rightarrow> Some (Inr (), w1)
               | Inr (Some avatar_url) \<Rightarrow>
                   (case cdn_request avatar_url w1 of
                      (URLError, w2) \<Rightarrow> Some (Inl ConnectionError, w2)
                    | (Read_timeout, w2) \<Rightarrow> Some (Inl TimeoutError, w2)
                    | (Cdn_body buf, w2) \<Rightarrow>
                        (case imdecode cv buf of
                           Inl err \<Rightarrow> Some (Inl err, w2)
                         | Inr img \<Rightarrow> Some (imwrite cv img_path img w2)))))"

section \<open>utils.py: the effect processor\<close>

text \<open>
  \<^verbatim>\<open>
  def artistic_effect(og_dir, *, effect):
      if effect != 0:
          img = cv2.imread(str(og_dir))
          match effect:
              case 1:
                  img = cv2.cvtColor(img, cv2.COLOR_BGR2GRAY)
          fx_dir = get_avatar_dir(og_dir=og_dir, effect=effect)
          cv2.imwrite(str(fx_dir), img)
          return fx_dir
      return og_dir
  \<close>
\<close>

definition artistic_effect ::
  "'img cv2 \<Rightarrow> env \<Rightarrow> path \<Rightarrow> int \<Rightarrow> world \<Rightarrow> (error + path) \<times> world" where
  "artistic_effect cv e og_dir effect w =
     (if effect \<noteq> 0 then
        (case (if effect = 1 then cvtColor_gray cv (imread cv og_dir w) else Inr (imread cv og_dir w)) of
           Inl err \<Rightarrow> (Inl err, w)
         | Inr img \<Rightarrow>
             (case get_avatar_dir e None (Some og_dir) effect of
                Inl err \<Rightarrow> (Inl err, w)
              | Inr fx_dir \<Rightarrow>
                  (case imwrite cv fx_dir img w of
                     (Inl err, w') \<Rightarrow> (Inl err, w')
                   | (Inr _, w') \<Rightarrow> (Inr fx_dir, w'))))
      else (Inr og_dir, w))"

section \<open>Notions used to state the properties\<close>

text \<open>The CDN requests and the file writes recorded so far.\<close>

fun is_cdn_get :: "event \<Rightarrow> bool" where
  "is_cdn_get (Cdn_get u) = True"
| "is_cdn_get ev = False"

fun is_file_write :: "event \<Rightarrow> bool" where
  "is_file_write (File_write p) = True"
| "is_file_write ev = False"

definition cdn_requests :: "world \<Rightarrow> event list" where
  "cdn_requests w = filter is_cdn_get (trace w)"

definition file_writes :: "world \<Rightarrow> event list" where
  "file_writes w = filter is_file_write (trace w)"

text \<open>
  A reply that \<open>fetch_avatar_url\<close> classifies as a rate limit, following its chain of
  conditions: a JSON object without \<open>avatar\<close> whose \<open>message\<close> is a string that, in
  lower case, does not contain \<open>401: unauthorized\<close> and contains \<open>limit\<close>.
\<close>

definition rate_limited :: "lookup_reply \<Rightarrow> bool" where
  "rate_limited reply =
     (case reply of
        Json (JObj body) \<Rightarrow>
          map_of body ''avatar'' = None \<and>
          (case map_of body ''message'' of
             Some (JStr m) \<Rightarrow>
               \<not> contains ''401: unauthorized'' (lower m) \<and> contains ''limit'' (lower m)
           | _ \<Rightarrow> False)
      | _ \<Rightarrow> False)"

text \<open>
  The length that \<open>time.sleep(body['retry_after'])\<close> sleeps, for the values it
  accepts: a number from 0 to \<open>sleep_max\<close>, or a truth value.
\<close>

definition sleep_length :: "json option \<Rightarrow> rat option" where
  "sleep_length v =
     (case v of
        Some (JNum d) \<Rightarrow> if 0 \<le> d \<and> d \<le> sleep_max then Some d else None
      | Some (JBool b) \<Rightarrow> Some (if b then 1 else 0)
      | _ \<Rightarrow> None)"

text \<open>The delay of a reply that is classified as a rate limit and whose \<open>retry_after\<close>
  can be slept; \<open>None\<close> for every other reply.\<close>

definition retry_delay :: "lookup_reply \<Rightarrow> rat option" where
  "retry_delay reply =
     (if rate_limited reply then
        (case reply of
           Json (JObj body) \<Rightarrow> sleep_length (map_of body ''retry_after'')
         | _ \<Rightarrow> None)
      else None)"

text \<open>The replies to come start with rate limits of the delays \<open>ds\<close>, in this order,
  and the reply after them has no delay.\<close>

fun rate_limit_run :: "(nat \<Rightarrow> lookup_reply) \<Rightarrow> rat list \<Rightarrow> bool" where
  "rate_limit_run a [] = (retry_delay (a 0) = None)"
| "rate_limit_run a (d # ds) = (retry_delay (a 0) = Some d \<and> rate_limit_run (\<lambda>n. a (Suc n)) ds)"

text \<open>A lookup request, and after each delay a sleep of that length and the same request
  again.\<close>

fun retry_trace :: "string \<Rightarrow> string \<Rightarrow> rat list \<Rightarrow> event list" where
  "retry_trace uid api_token [] = [Api_get uid api_token]"
| "retry_trace uid api_token (d # ds) =
     Api_get uid api_token # Slept d # retry_trace uid api_token ds"

text \<open>A string without a path separator.\<close>

definition no_sep :: "string \<Rightarrow> bool" where
  "no_sep s = list_all (\<lambda>c. \<not> is_sep c) s"

text \<open>The characters of a decimal number: digits, the point, the exponent letter and the
  signs.\<close>

definition float_char :: "char \<Rightarrow> bool" where
  "float_char c = (is_digit c \<or> c \<in> set ''.eE+-'')"

subsection \<open>Example worlds\<close>

text \<open>A service that gives the replies of a list in turn and then a fixed reply for ever.\<close>

definition script :: "'a \<Rightarrow> 'a list \<Rightarrow> nat \<Rightarrow> 'a" where
  "script dflt rs n = (case drop n rs of [] \<Rightarrow> dflt | r # _ \<Rightarrow> r)"

definition example_world :: "lookup_reply list \<Rightarrow> cdn_reply list \<Rightarrow> world" where
  "example_world rs cs =
     \<lparr>api = script Transport_failure rs, cdn = script URLError cs, fs = Map.empty, trace = [],
      stack_room = 980\<rparr>"

definition example_env :: env where
  "example_env = \<lparr>MAIN_DIR = Path ''C:'' [''app''], AVATAR_DIR = Path [] [''avatars'']\<rparr>"

definition reply_rate_limit :: "rat \<Rightarrow> lookup_reply" where
  "reply_rate_limit d =
     Json (JObj [(''message'', JStr ''You are being rate limited.''), (''retry_after'', JNum d)])"

definition reply_avatar :: "string \<Rightarrow> lookup_reply" where
  "reply_avatar h = Json (JObj [(''id'', JStr ''123''), (''avatar'', JStr h)])"

definition reply_unauthorized :: lookup_reply where
  "reply_unauthorized = Json (JObj [(''message'', JStr ''401: Unauthorized''), (''code'', JNum 0)])"

text \<open>
  A codec for the examples. An image is its number of channels (1, 3 or 4) and its
  samples, pixel after pixel; a file is the number of channels followed by the samples,
  and only the extension \<open>.png\<close> has a writer. The conversion to colour drops the
  fourth sample of each pixel of a four-channel image and repeats the sample of a
  one-channel image three times; the conversion to grey keeps the first sample of each
  pixel of a three-channel image.
\<close>

fun drop_fourth :: "'a list \<Rightarrow> 'a list" where
  "drop_fourth (b # g # r # a # xs) = b # g # r # drop_fourth xs"
| "drop_fourth xs = xs"

fun first_of_three :: "'a list \<Rightarrow> 'a list" where
  "first_of_three (b # g # r # xs) = b # first_of_three xs"
| "first_of_three xs = []"

definition example_cv :: "(nat \<times> bytes) cv2" where
  "example_cv =
     \<lparr>decode_unchanged =
        (\<lambda>buf. case buf of
                 [] \<Rightarrow> None
               | c # samples \<Rightarrow>
                   if unat c = 1 \<or> unat c = 3 \<or> unat c = 4 then Some (unat c, samples) else None),
      to_color =
        (\<lambda>(c, samples).
           if c = 4 then (3, drop_fourth samples)
           else if c = 1 then (3, concat (map (\<lambda>s. [s, s, s]) samples))
           else (c, samples)),
      encode = (\<lambda>ext (c, samples). if ext = ''.png'' then Some (of_nat c # samples) else None),
      bgr2gray = (\<lambda>(c, samples). if c = 3 then Some (1, first_of_three samples) else None)\<rparr>"

section \<open>Properties\<close>

subsection \<open>Example worlds step as expected\<close>

lemma script_shift [simp]: "(\<lambda>n. script d (r # rs) (Suc n)) = script d rs"
  by (simp add: script_def fun_eq_iff)

lemma script_0 [simp]: "script d (r # rs) 0 = r"
  by (simp add: script_def)

lemma script_nil [simp]: "script d [] n = d"
  by (simp add: script_def)

subsection \<open>Sleeping\<close>

lemma sleep_bounds: "sleep_min < 0" "0 < sleep_max" "1 / 100 \<le> sleep_max" "1 \<le> sleep_max"
  by (simp_all add: sleep_min_def sleep_max_def)

lemma time_sleep_ok:
  assumes "0 \<le> d" and "d \<le> sleep_max"
  shows "time_sleep d w = (Inr (), w\<lparr>trace := trace w @ [Slept d]\<rparr>)"
  using assms sleep_bounds(1) by (simp add: time_sleep_def)

lemma sleep_retry_after_Some:
  assumes "sleep_length (map_of body ''retry_after'') = Some d"
  shows "sleep_retry_after body w = (Inr (), w\<lparr>trace := trace w @ [Slept d]\<rparr>)"
  using assms sleep_bounds
  by (auto simp: sleep_length_def sleep_retry_after_def time_sleep_ok
      split: option.splits json.splits if_splits)

lemma sleep_retry_after_None:
  assumes "sleep_length (map_of body ''retry_after'') = None"
  shows "\<exists>e. sleep_retry_after body w = (Inl e, w)"
  using assms sleep_bounds
  by (auto simp: sleep_length_def sleep_retry_after_def time_sleep_def
      split: option.splits json.splits if_splits)

subsection \<open>What the link resolver leaves untouched, and its first request\<close>

text \<open>What the caller makes of the nested call's outcome: the exception goes on, a
  returned value is dropped, and the stack room is what it was before the call.\<close>

lemma discard_bind_Some:
  "Option.bind x
     (\<lambda>(r, w3). case r of Inl e \<Rightarrow> Some (Inl e, w3\<lparr>stack_room := n\<rparr>)
                        | Inr _ \<Rightarrow> Some (Inr None, w3\<lparr>stack_room := n\<rparr>)) = Some (r, w')
   \<longleftrightarrow> (\<exists>r' w3. x = Some (r', w3) \<and> r = (case r' of Inl e \<Rightarrow> Inl e | Inr _ \<Rightarrow> Inr None) \<and>
          w' = w3\<lparr>stack_room := n\<rparr>)"
proof (cases x)
  case None
  then show ?thesis by simp
next
  case (Some y)
  obtain r0 w0 where y: "y = (r0, w0)" by (cases y)
  show ?thesis unfolding Some y by (cases r0) auto
qed

lemma fetch_numeric:
  assumes "is_number uid"
  shows "fetch_avatar_url uid tok sz w =
     (case api_request uid tok w of
           (Transport_failure, w1) \<Rightarrow> Some (Inl ConnectionError, w1)
         | (Not_json, w1) \<Rightarrow> Some (Inl JSONDecodeError, w1)
         | (Json (JObj body), w1) \<Rightarrow>
             (case map_of body ''avatar'' of
                Some h \<Rightarrow> Some (Inr (Some (Avatar_url uid h sz)), w1)
              | None \<Rightarrow>
                  (case map_of body ''message'' of
                     None \<Rightarrow> Some (Inl (KeyError ''message''), w1)
                   | Some (JStr m) \<Rightarrow>
                       (let msg = lower m in
                        if contains ''401: unauthorized'' msg then
                          Some (Inl (InvalidTokenError tok (JObj body)), w1)
                        else if contains ''limit'' msg then
                          (case sleep_retry_after body w1 of
                             (Inl e, w2) \<Rightarrow> Some (Inl e, w2)
                           | (Inr _, w2) \<Rightarrow>
                               if stack_room w2 = 0 then Some (Inl RecursionError, w2)
                               else
                                 Option.bind
                                   (fetch_avatar_url uid tok sz (w2\<lparr>stack_room := stack_room w2 - 1\<rparr>))
                                   (\<lambda>(r, w3). case r of
                                        Inl e \<Rightarrow> Some (Inl e, w3\<lparr>stack_room := stack_room w2\<rparr>)
                                      | Inr _ \<Rightarrow> Some (Inr None, w3\<lparr>stack_room := stack_room w2\<rparr>)))
                        else if contains ''unknown user'' msg then
                          Some (Inl (UnknownUserError uid (JObj body)), w1)
                        else Some (Inl (DiscordAPIError tok (JObj body)), w1))
                   | Some _ \<Rightarrow> Some (Inl AttributeError, w1)))
         | (Json _, w1) \<Rightarrow> Some (Inl TypeError, w1))"
  using assms by (subst fetch_avatar_url.simps) simp

lemma rate_limited_D:
  assumes "rate_limited reply"
  obtains body m where "reply = Json (JObj body)" and "map_of body ''avatar'' = None"
    and "map_of body ''message'' = Some (JStr m)"
    and "\<not> contains ''401: unauthorized'' (lower m)" and "contains ''limit'' (lower m)"
proof -
  from assms obtain body where r: "reply = Json (JObj body)"
    by (auto simp: rate_limited_def split: lookup_reply.splits json.splits)
  with assms have a: "map_of body ''avatar'' = None"
    and c: "(case map_of body ''message'' of
               Some (JStr m) \<Rightarrow>
                 \<not> contains ''401: unauthorized'' (lower m) \<and> contains ''limit'' (lower m)
             | _ \<Rightarrow> False)"
    by (simp_all add: rate_limited_def)
  from c obtain j where j: "map_of body ''message'' = Some j"
    by (cases "map_of body ''message''") auto
  with c obtain m where "j = JStr m"
    and "\<not> contains ''401: unauthorized'' (lower m)" and "contains ''limit'' (lower m)"
    by (cases j) auto
  with r a j that show ?thesis
    by blast
qed

lemma fetch_not_rate_limited:
  assumes "is_number uid" and "\<not> rate_limited (api w 0)"
  shows "\<exists>r. fetch_avatar_url uid tok sz w = Some (r, snd (api_request uid tok w))"
  using assms(2) unfolding fetch_numeric [OF assms(1), where w = w]
  by (auto simp: api_request_def rate_limited_def Let_def
      split: lookup_reply.splits json.splits option.splits)

text \<open>A rate limit whose \<open>retry_after\<close> cannot be slept: the sleep raises and there is no
  retry.\<close>

lemma fetch_rate_limited_no_sleep:
  assumes "is_number uid" and "rate_limited (api w 0)" and "retry_delay (api w 0) = None"
  shows "\<exists>e. fetch_avatar_url uid tok sz w = Some (Inl e, snd (api_request uid tok w))"
proof -
  from assms(2) obtain body m where b: "api w 0 = Json (JObj body)"
    "map_of body ''avatar'' = None" "map_of body ''message'' = Some (JStr m)"
    "\<not> contains ''401: unauthorized'' (lower m)" "contains ''limit'' (lower m)"
    by (rule rate_limited_D)
  from assms(2,3) b(1) have "sleep_length (map_of body ''retry_after'') = None"
    by (simp add: retry_delay_def)
  from sleep_retry_after_None [OF this, of "snd (api_request uid tok w)"]
  obtain e where "sleep_retry_after body (snd (api_request uid tok w)) = (Inl e, snd (api_request uid tok w))"
    by blast
  with b show ?thesis
    unfolding fetch_numeric [OF assms(1), where w = w]
    by (simp add: api_request_def)
qed

lemma fetch_no_delay:
  assumes "is_number uid" and "retry_delay (api w 0) = None"
  shows "\<exists>r. fetch_avatar_url uid tok sz w =
           Some (r, w\<lparr>api := (\<lambda>n. api w (Suc n)), trace := trace w @ [Api_get uid tok]\<rparr>)"
proof (cases "rate_limited (api w 0)")
  case True
  from fetch_rate_limited_no_sleep [OF assms(1) True assms(2), of tok sz] show ?thesis
    by (auto simp: api_request_def)
next
  case False
  from fetch_not_rate_limited [OF assms(1) False, of tok sz] show ?thesis
    by (simp add: api_request_def)
qed

text \<open>A rate limit with a delay: the request, the sleep, and then the nested call, or
  \<open>RecursionError\<close> when the stack has no room for it.\<close>

lemma retry_delay_D:
  assumes "retry_delay reply = Some d"
  obtains body m where "reply = Json (JObj body)" and "map_of body ''avatar'' = None"
    and "map_of body ''message'' = Some (JStr m)"
    and "\<not> contains ''401: unauthorized'' (lower m)" and "contains ''limit'' (lower m)"
    and "sleep_length (map_of body ''retry_after'') = Some d"
proof -
  from assms have rl: "rate_limited reply"
    by (simp add: retry_delay_def split: if_splits)
  then obtain body m where b: "reply = Json (JObj body)" "map_of body ''avatar'' = None"
    "map_of body ''message'' = Some (JStr m)"
    "\<not> contains ''401: unauthorized'' (lower m)" "contains ''limit'' (lower m)"
    by (rule rate_limited_D)
  with assms rl have "sleep_length (map_of body ''retry_after'') = Some d"
    by (simp add: retry_delay_def)
  with b that show ?thesis
    by blast
qed

lemma fetch_no_room:
  assumes "is_number uid" and "retry_delay (api w 0) = Some d" and "stack_room w = 0"
  shows "fetch_avatar_url uid tok sz w =
           Some (Inl RecursionError,
                 w\<lparr>api := (\<lambda>n. api w (Suc n)), trace := trace w @ [Api_get uid tok, Slept d]\<rparr>)"
proof -
  from assms(2) obtain body m where b: "api w 0 = Json (JObj body)"
    "map_of body ''avatar'' = None" "map_of body ''message'' = Some (JStr m)"
    "\<not> contains ''401: unauthorized'' (lower m)" "contains ''limit'' (lower m)"
    "sleep_length (map_of body ''retry_after'') = Some d"
    by (rule retry_delay_D)
  show ?thesis
    unfolding fetch_numeric [OF assms(1), where w = w]
    using b(1-5) assms(3) by (simp add: api_request_def sleep_retry_after_Some [OF b(6)])
qed

lemma fetch_retry:
  assumes "is_number uid" and "retry_delay (api w 0) = Some d" and "0 < stack_room w"
  shows "fetch_avatar_url uid tok sz w =
           Option.bind
             (fetch_avatar_url uid tok sz
                (w\<lparr>api := (\<lambda>n. api w (Suc n)), trace := trace w @ [Api_get uid tok, Slept d],
                   stack_room := stack_room w - 1\<rparr>))
             (\<lambda>(r, w3). case r of Inl e \<Rightarrow> Some (Inl e, w3\<lparr>stack_room := stack_room w\<rparr>)
                                | Inr _ \<Rightarrow> Some (Inr None, w3\<lparr>stack_room := stack_room w\<rparr>))"
proof -
  from assms(2) obtain body m where b: "api w 0 = Json (JObj body)"
    "map_of body ''avatar'' = None" "map_of body ''message'' = Some (JStr m)"
    "\<not> contains ''401: unauthorized'' (lower m)" "contains ''limit'' (lower m)"
    "sleep_length (map_of body ''retry_after'') = Some d"
    by (rule retry_delay_D)
  show ?thesis
    unfolding fetch_numeric [OF assms(1), where w = w]
    using b(1-5) assms(3)
    by (simp add: api_request_def sleep_retry_after_Some [OF b(6)] cong: sum.case_cong)
qed

text \<open>The resolver always returns or raises.\<close>

lemma fetch_avatar_url_returns: "\<exists>y. fetch_avatar_url uid tok sz w = Some y"
proof (induction "stack_room w" arbitrary: w)
  case 0
  show ?case
  proof (cases "is_number uid")
    case False
    then show ?thesis by (subst fetch_avatar_url.simps) simp
  next
    case True
    show ?thesis
    proof (cases "retry_delay (api w 0)")
      case None
      from fetch_no_delay [OF True None, of tok sz] show ?thesis by blast
    next
      case (Some d)
      from fetch_no_room [OF True Some, of tok sz] 0 show ?thesis by simp
    qed
  qed
next
  case (Suc n)
  show ?case
  proof (cases "is_number uid")
    case False
    then show ?thesis by (subst fetch_avatar_url.simps) simp
  next
    case True
    show ?thesis
    proof (cases "retry_delay (api w 0)")
      case None
      from fetch_no_delay [OF True None, of tok sz] show ?thesis by blast
    next
      case (Some d)
      let ?w2 = "w\<lparr>api := (\<lambda>n. api w (Suc n)), trace := trace w @ [Api_get uid tok, Slept d],
                   stack_room := stack_room w - 1\<rparr>"
      from Suc(2) have "n = stack_room ?w2" and pos: "0 < stack_room w"
        by simp_all
      from Suc(1) [OF this(1)] obtain r' w3 where "fetch_avatar_url uid tok sz ?w2 = Some (r', w3)"
        by auto
      then show ?thesis
        unfolding fetch_retry [OF True Some pos, of tok sz] by (cases r') simp_all
    qed
  qed
qed

lemma fetch_frame':
  assumes "fetch_avatar_url uid tok sz w = Some y"
  shows "fs (snd y) = fs w \<and> cdn (snd y) = cdn w \<and> stack_room (snd y) = stack_room w \<and>
     cdn_requests (snd y) = cdn_requests w \<and> file_writes (snd y) = file_writes w \<and>
     prefix (trace w) (trace (snd y))"
  using assms
proof (induction "stack_room w" arbitrary: w y rule: less_induct)
  case less
  show ?case
  proof (cases "is_number uid")
    case False
    with less.prems show ?thesis
      by (subst (asm) fetch_avatar_url.simps) auto
  next
    case True
    show ?thesis
    proof (cases "retry_delay (api w 0)")
      case None
      from fetch_no_delay [OF True None, of tok sz] less.prems
      have "snd y = w\<lparr>api := (\<lambda>n. api w (Suc n)), trace := trace w @ [Api_get uid tok]\<rparr>"
        by auto
      then show ?thesis
        by (simp add: cdn_requests_def file_writes_def)
    next
      case (Some d)
      show ?thesis
      proof (cases "stack_room w = 0")
        case True
        from fetch_no_room [OF \<open>is_number uid\<close> Some True, of tok sz] less.prems
        have "snd y = w\<lparr>api := (\<lambda>n. api w (Suc n)), trace := trace w @ [Api_get uid tok, Slept d]\<rparr>"
          by auto
        then show ?thesis
          by (simp add: cdn_requests_def file_writes_def)
      next
        case False
        let ?w2 = "w\<lparr>api := (\<lambda>n. api w (Suc n)), trace := trace w @ [Api_get uid tok, Slept d],
                     stack_room := stack_room w - 1\<rparr>"
        from False have pos: "0 < stack_room w"
          by simp
        from less.prems obtain r' w3 where rec: "fetch_avatar_url uid tok sz ?w2 = Some (r', w3)"
          and y: "snd y = w3\<lparr>stack_room := stack_room w\<rparr>"
          unfolding fetch_retry [OF True Some pos, of tok sz]
          by (cases y) (auto simp: discard_bind_Some)
        from pos have "stack_room ?w2 < stack_room w"
          by simp
        from less.hyps [OF this rec] y show ?thesis
          by (auto simp: cdn_requests_def file_writes_def prefix_def)
      qed
    qed
  qed
qed

lemma fetch_frame:
  assumes "fetch_avatar_url uid tok sz w = Some (r, w')"
  shows "fs w' = fs w" and "cdn w' = cdn w" and "cdn_requests w' = cdn_requests w"
    and "file_writes w' = file_writes w" and "prefix (trace w) (trace w')"
    and "stack_room w' = stack_room w"
  using fetch_frame' [OF assms] by simp_all

lemma fetch_unauthorized:
  assumes "is_number uid"
    and "api w 0 = Json (JObj body)"
    and "map_of body ''avatar'' = None"
    and "map_of body ''message'' = Some (JStr m)"
    and "contains ''401: unauthorized'' (lower m)"
  shows "fetch_avatar_url uid api_token sz w =
     Some (Inl (InvalidTokenError api_token (JObj body)),
           w\<lparr>api := (\<lambda>n. api w (Suc n)), trace := trace w @ [Api_get uid api_token]\<rparr>)"
  using assms(2-) unfolding fetch_numeric [OF assms(1), where w = w]
  by (simp add: api_request_def)

lemma fetch_numeric_requests:
  assumes "is_number uid" and "fetch_avatar_url uid tok sz w = Some (r, w')"
  shows "prefix (trace w @ [Api_get uid tok]) (trace w')"
proof (cases "retry_delay (api w 0)")
  case None
  from fetch_no_delay [OF assms(1) None, of tok sz] assms(2) show ?thesis
    by auto
next
  case (Some d)
  show ?thesis
  proof (cases "stack_room w = 0")
    case True
    from fetch_no_room [OF assms(1) Some True, of tok sz] assms(2) show ?thesis
      by auto
  next
    case False
    let ?w2 = "w\<lparr>api := (\<lambda>n. api w (Suc n)), trace := trace w @ [Api_get uid tok, Slept d],
                 stack_room := stack_room w - 1\<rparr>"
    from False have pos: "0 < stack_room w"
      by simp
    from assms(2) obtain r' w3 where rec: "fetch_avatar_url uid tok sz ?w2 = Some (r', w3)"
      and w': "w' = w3\<lparr>stack_room := stack_room w\<rparr>"
      unfolding fetch_retry [OF assms(1) Some pos, of tok sz]
      by (auto simp: discard_bind_Some)
    from fetch_frame(5) [OF rec] have "prefix (trace w @ [Api_get uid tok, Slept d]) (trace w')"
      by (simp add: w')
    then show ?thesis
      by (auto simp: prefix_def)
  qed
qed

text \<open>After a rate limit with a delay and with room on the stack, the outcome is that of
  the nested call, a returned value dropped.\<close>

lemma fetch_retry_outcome:
  assumes "is_number uid" and "retry_delay (api w 0) = Some d" and "0 < stack_room w"
  shows "\<exists>r' w3.
           fetch_avatar_url uid tok sz
             (w\<lparr>api := (\<lambda>n. api w (Suc n)), trace := trace w @ [Api_get uid tok, Slept d],
                stack_room := stack_room w - 1\<rparr>) = Some (r', w3) \<and>
           fetch_avatar_url uid tok sz w =
             Some (case r' of Inl e \<Rightarrow> Inl e | Inr _ \<Rightarrow> Inr None, w3\<lparr>stack_room := stack_room w\<rparr>)"
proof -
  let ?w2 = "w\<lparr>api := (\<lambda>n. api w (Suc n)), trace := trace w @ [Api_get uid tok, Slept d],
               stack_room := stack_room w - 1\<rparr>"
  from fetch_avatar_url_returns [of uid tok sz ?w2]
  obtain r' w3 where rec: "fetch_avatar_url uid tok sz ?w2 = Some (r', w3)"
    by auto
  then have "fetch_avatar_url uid tok sz w =
      Some (case r' of Inl e \<Rightarrow> Inl e | Inr _ \<Rightarrow> Inr None, w3\<lparr>stack_room := stack_room w\<rparr>)"
    unfolding fetch_retry [OF assms, of tok sz] by (cases r') simp_all
  with rec show ?thesis
    by blast
qed

text \<open>A run of rate limits with delays, with room on the stack for each retry: the
  resolver makes exactly the requests and sleeps of \<open>retry_trace\<close>.\<close>

lemma fetch_rate_limit_run:
  assumes "is_number uid" and "rate_limit_run (api w) ds" and "length ds \<le> stack_room w"
  shows "\<exists>r. fetch_avatar_url uid tok sz w =
           Some (r, w\<lparr>api := (\<lambda>n. api w (n + Suc (length ds))),
                      trace := trace w @ retry_trace uid tok ds\<rparr>)"
  using assms(2,3)
proof (induction ds arbitrary: w)
  case Nil
  then have "retry_delay (api w 0) = None"
    by simp
  from fetch_no_delay [OF assms(1) this, of tok sz] show ?case
    by simp
next
  case (Cons d ds)
  let ?w2 = "w\<lparr>api := (\<lambda>n. api w (Suc n)), trace := trace w @ [Api_get uid tok, Slept d],
               stack_room := stack_room w - 1\<rparr>"
  from Cons.prems have d: "retry_delay (api w 0) = Some d"
    and run: "rate_limit_run (api ?w2) ds" and pos: "0 < stack_room w"
    and room: "length ds \<le> stack_room ?w2"
    by simp_all
  from Cons.IH [OF run room] obtain r' where
    rec: "fetch_avatar_url uid tok sz ?w2 =
            Some (r', ?w2\<lparr>api := (\<lambda>n. api ?w2 (n + Suc (length ds))),
                          trace := trace ?w2 @ retry_trace uid tok ds\<rparr>)"
    by blast
  from pos have "fetch_avatar_url uid tok sz w =
      Some (case r' of Inl e \<Rightarrow> Inl e | Inr _ \<Rightarrow> Inr None,
            w\<lparr>api := (\<lambda>n. api w (n + Suc (length (d # ds)))),
               trace := trace w @ retry_trace uid tok (d # ds)\<rparr>)"
    unfolding fetch_retry [OF assms(1) d pos, of tok sz] rec by (cases r') simp_all
  then show ?case
    by blast
qed

subsection \<open>The link resolver\<close>

text \<open>
  C3. An identifier that fails the numeric check makes \<open>fetch_avatar_url\<close> return
  \<open>None\<close> at once: the world, and with it the record of requests, is left as it was.
\<close>

theorem fetch_avatar_url_non_numeric:
  assumes "\<not> is_number uid"
  shows "fetch_avatar_url uid api_token sz w = Some (Inr None, w)"
  using assms by (subst fetch_avatar_url.simps) simp

theorem fetch_avatar_url_non_numeric_witness:
  "\<not> is_number ''abc'' \<and>
   fetch_avatar_url ''abc'' ''tok'' 128 (example_world [reply_avatar ''h''] []) =
     Some (Inr None, example_world [reply_avatar ''h''] [])"
proof -
  have h: "\<not> is_number ''abc''"
    by code_simp
  from fetch_avatar_url_non_numeric [OF h] h show ?thesis
    by blast
qed

text \<open>
  C5. When the reply has no \<open>avatar\<close> field and its message, in lower case, contains
  \<open>401: unauthorized\<close>, \<open>fetch_avatar_url\<close> raises \<open>InvalidTokenError\<close> with the
  credential and the reply's body, and the lookup request it has made is the only one.
\<close>

theorem fetch_avatar_url_unauthorized:
  assumes "is_number uid"
    and "api w 0 = Json (JObj body)"
    and "map_of body ''avatar'' = None"
    and "map_of body ''message'' = Some (JStr m)"
    and "contains ''401: unauthorized'' (lower m)"
  shows "fetch_avatar_url uid api_token sz w =
     Some (Inl (InvalidTokenError api_token (JObj body)),
           w\<lparr>api := (\<lambda>n. api w (Suc n)), trace := trace w @ [Api_get uid api_token]\<rparr>)"
  using assms by (rule fetch_unauthorized)

theorem fetch_avatar_url_unauthorized_witness:
  "is_number ''123'' \<and>
   api (example_world [reply_unauthorized] []) 0 =
     Json (JObj [(''message'', JStr ''401: Unauthorized''), (''code'', JNum 0)]) \<and>
   map_of [(''message'', JStr ''401: Unauthorized''), (''code'', JNum 0)] ''avatar'' = None \<and>
   map_of [(''message'', JStr ''401: Unauthorized''), (''code'', JNum 0)] ''message'' =
     Some (JStr ''401: Unauthorized'') \<and>
   contains ''401: unauthorized'' (lower ''401: Unauthorized'') \<and>
   fetch_avatar_url ''123'' ''tok'' 128 (example_world [reply_unauthorized] []) =
     Some (Inl (InvalidTokenError ''tok''
                  (JObj [(''message'', JStr ''401: Unauthorized''), (''code'', JNum 0)])),
           (example_world [reply_unauthorized] [])
             \<lparr>api := (\<lambda>n. api (example_world [reply_unauthorized] []) (Suc n)),
              trace := trace (example_world [reply_unauthorized] []) @ [Api_get ''123'' ''tok'']\<rparr>)"
proof -
  have h1: "is_number ''123''"
    by code_simp
  have h2: "api (example_world [reply_unauthorized] []) 0 =
     Json (JObj [(''message'', JStr ''401: Unauthorized''), (''code'', JNum 0)])"
    by (simp add: example_world_def reply_unauthorized_def)
  have h3: "map_of [(''message'', JStr ''401: Unauthorized''), (''code'', JNum 0)] ''avatar'' = None"
    by simp
  have h4: "map_of [(''message'', JStr ''401: Unauthorized''), (''code'', JNum 0)] ''message'' =
     Some (JStr ''401: Unauthorized'')"
    by simp
  have h5: "contains ''401: unauthorized'' (lower ''401: Unauthorized'')"
    by code_simp
  from fetch_avatar_url_unauthorized [OF h1 h2 h3 h4 h5] h1 h2 h3 h4 h5 show ?thesis
    by blast
qed

text \<open>
  C1 (as amended). For a numeric identifier, when the replies to come start with one or
  more replies that are classified as a rate limit (no \<open>avatar\<close> field, a message
  that in lower case contains \<open>limit\<close> and does not contain \<open>401: unauthorized\<close>),
  each with a \<open>retry_after\<close> that \<open>time.sleep\<close> accepts, followed by a reply that
  is not such a rate limit, and the interpreter's stack has room for one nested call
  per such rate limit, \<open>fetch_avatar_url\<close> returns or raises after exactly these
  actions: the lookup request and then, for each rate limit in turn, a sleep of exactly
  its \<open>retry_after\<close> and the same lookup request again. So it makes one retry per
  consecutive rate limit: exactly one when the reply to the first retry is not such a
  rate limit.
\<close>

theorem fetch_avatar_url_rate_limit_retry:
  assumes "is_number uid"
    and "rate_limit_run (api w) (d # ds)"
    and "length (d # ds) \<le> stack_room w"
  shows "\<exists>r. fetch_avatar_url uid api_token sz w =
           Some (r, w\<lparr>api := (\<lambda>n. api w (n + Suc (length (d # ds)))),
                      trace := trace w @ retry_trace uid api_token (d # ds)\<rparr>)"
  using assms by (rule fetch_rate_limit_run)

theorem fetch_avatar_url_rate_limit_retry_witness:
  "is_number ''123'' \<and>
   rate_limit_run
     (api (example_world [reply_rate_limit (5 / 2), reply_rate_limit 1, reply_avatar ''abc''] []))
     [5 / 2, 1] \<and>
   length [5 / 2, 1 :: rat] \<le>
     stack_room (example_world [reply_rate_limit (5 / 2), reply_rate_limit 1, reply_avatar ''abc''] []) \<and>
   retry_trace ''123'' ''tok'' [5 / 2, 1] =
     [Api_get ''123'' ''tok'', Slept (5 / 2), Api_get ''123'' ''tok'', Slept 1,
      Api_get ''123'' ''tok''] \<and>
   (\<exists>r. fetch_avatar_url ''123'' ''tok'' 128
           (example_world [reply_rate_limit (5 / 2), reply_rate_limit 1, reply_avatar ''abc''] []) =
      Some (r, (example_world [reply_rate_limit (5 / 2), reply_rate_limit 1, reply_avatar ''abc''] [])
                 \<lparr>api := (\<lambda>n. api (example_world
                                      [reply_rate_limit (5 / 2), reply_rate_limit 1, reply_avatar ''abc''] [])
                                 (n + Suc (length [5 / 2, 1 :: rat]))),
                  trace := trace (example_world
                                    [reply_rate_limit (5 / 2), reply_rate_limit 1, reply_avatar ''abc''] []) @
                     retry_trace ''123'' ''tok'' [5 / 2, 1]\<rparr>))"
proof -
  let ?W = "example_world [reply_rate_limit (5 / 2), reply_rate_limit 1, reply_avatar ''abc''] []"
  have h1: "is_number ''123''"
    by code_simp
  have h2: "rate_limit_run (api ?W) [5 / 2, 1]"
    by code_simp
  have h3: "length [5 / 2, 1 :: rat] \<le> stack_room ?W"
    by (simp add: example_world_def)
  have t: "retry_trace ''123'' ''tok'' [5 / 2, 1] =
     [Api_get ''123'' ''tok'', Slept (5 / 2), Api_get ''123'' ''tok'', Slept 1,
      Api_get ''123'' ''tok'']"
    by simp
  from fetch_avatar_url_rate_limit_retry [OF h1 h2 h3, of "''tok''" 128] h1 h2 h3 t
  show ?thesis
    by blast
qed

text \<open>
  C1 as stated fails in two ways. A retry that is answered by a rate limit again is
  followed by a further sleep and a further retry: three lookup requests, not two.
  And a message that contains both markers is classified as unauthorized first: no
  sleep and no retry at all.
\<close>

theorem fetch_avatar_url_rate_limit_retry_counterexample:
  "rate_limited (reply_rate_limit (5 / 2)) \<and> rate_limited (reply_rate_limit 1) \<and>
   contains ''limit'' (lower ''401: Unauthorized (rate limit)'') \<and>
   map_option (\<lambda>(r, w). (r, trace w))
     (fetch_avatar_url ''123'' ''tok'' 128
        (example_world [reply_rate_limit (5 / 2), reply_rate_limit 1, reply_avatar ''abc''] [])) =
     Some (Inr None,
           [Api_get ''123'' ''tok'', Slept (5 / 2), Api_get ''123'' ''tok'', Slept 1,
            Api_get ''123'' ''tok'']) \<and>
   map_option (\<lambda>(r, w). (r, trace w))
     (fetch_avatar_url ''123'' ''tok'' 128
        (example_world
           [Json (JObj [(''message'', JStr ''401: Unauthorized (rate limit)''),
                        (''retry_after'', JNum (5 / 2))])] [])) =
     Some (Inl (InvalidTokenError ''tok''
                  (JObj [(''message'', JStr ''401: Unauthorized (rate limit)''),
                         (''retry_after'', JNum (5 / 2))])),
           [Api_get ''123'' ''tok''])"
  by code_simp

subsection \<open>The downloader\<close>

lemma download_avatar_unfold:
  "download_avatar cv e uid api_token sz w =
     Option.bind (fetch_avatar_url uid api_token sz (w\<lparr>trace := trace w @ [Slept (1 / 100)]\<rparr>))
       (\<lambda>(r, w1). case r of
            Inl err \<Rightarrow> Some (Inl err, w1)
          | Inr None \<Rightarrow> Some (Inr (), w1)
          | Inr (Some avatar_url) \<Rightarrow>
              (case cdn_request avatar_url w1 of
                 (URLError, w2) \<Rightarrow> Some (Inl ConnectionError, w2)
               | (Read_timeout, w2) \<Rightarrow> Some (Inl TimeoutError, w2)
               | (Cdn_body buf, w2) \<Rightarrow>
                   (case imdecode cv buf of
                      Inl err \<Rightarrow> Some (Inl err, w2)
                    | Inr img \<Rightarrow> Some (imwrite cv (get_avatar_path e uid) img w2))))"
  using sleep_bounds by (simp add: download_avatar_def time_sleep_def)

lemma slept_frame:
  "fs (w\<lparr>trace := trace w @ [Slept d]\<rparr>) = fs w"
  "cdn (w\<lparr>trace := trace w @ [Slept d]\<rparr>) = cdn w"
  "api (w\<lparr>trace := trace w @ [Slept d]\<rparr>) = api w"
  "cdn_requests (w\<lparr>trace := trace w @ [Slept d]\<rparr>) = cdn_requests w"
  "file_writes (w\<lparr>trace := trace w @ [Slept d]\<rparr>) = file_writes w"
  by (simp_all add: cdn_requests_def file_writes_def)

lemma download_avatar_no_url:
  assumes "fetch_avatar_url uid api_token sz (w\<lparr>trace := trace w @ [Slept (1 / 100)]\<rparr>) = Some (r, w1)"
    and "\<forall>u. r \<noteq> Inr (Some u)"
  shows "download_avatar cv e uid api_token sz w =
           Some (case r of Inl err \<Rightarrow> Inl err | Inr _ \<Rightarrow> Inr (), w1)"
    and "fs w1 = fs w" and "cdn w1 = cdn w"
    and "cdn_requests w1 = cdn_requests w" and "file_writes w1 = file_writes w"
proof -
  show "download_avatar cv e uid api_token sz w =
           Some (case r of Inl err \<Rightarrow> Inl err | Inr _ \<Rightarrow> Inr (), w1)"
    using assms unfolding download_avatar_unfold
    by (auto split: sum.splits option.splits)
  from fetch_frame [OF assms(1)]
  show "fs w1 = fs w" and "cdn w1 = cdn w"
    and "cdn_requests w1 = cdn_requests w" and "file_writes w1 = file_writes w"
    by (simp_all add: slept_frame)
qed

text \<open>A rate limit as the first reply: the resolver returns or raises, and what it
  returns is not a URL.\<close>

lemma fetch_rate_limited_no_url:
  assumes "is_number uid" and "rate_limited (api w 0)"
  shows "\<exists>r w'. fetch_avatar_url uid tok sz w = Some (r, w') \<and> (\<forall>u. r \<noteq> Inr (Some u))"
proof (cases "retry_delay (api w 0)")
  case None
  from fetch_rate_limited_no_sleep [OF assms None, of tok sz] show ?thesis
    by auto
next
  case (Some d)
  show ?thesis
  proof (cases "stack_room w = 0")
    case True
    from fetch_no_room [OF assms(1) Some True, of tok sz] show ?thesis
      by simp
  next
    case False
    then have "0 < stack_room w"
      by simp
    from fetch_retry_outcome [OF assms(1) Some this, of tok sz]
    obtain r' :: "error + url option" and w3 where
      "fetch_avatar_url uid tok sz w =
         Some (case r' of Inl e \<Rightarrow> Inl e | Inr _ \<Rightarrow> Inr None, w3\<lparr>stack_room := stack_room w\<rparr>)"
      by auto
    then show ?thesis
      by (cases r') auto
  qed
qed

text \<open>
  C2 (as amended). For a numeric identifier, when the first reply is classified as a
  rate limit, \<open>fetch_avatar_url\<close> returns \<open>None\<close> or raises, never a URL, and
  \<open>download_avatar\<close> returns or raises with the files as they were and no file write
  recorded. When moreover the reply's \<open>retry_after\<close> is one that \<open>time.sleep\<close> accepts
  and the interpreter's stack has room for the nested call, \<open>fetch_avatar_url\<close> makes
  the retry by calling itself after the request and the sleep, and its outcome is that
  of the retry with a returned value, a URL included, replaced by \<open>None\<close>.
\<close>

theorem fetch_avatar_url_rate_limit_discards:
  assumes "is_number uid" and "rate_limited (api w 0)"
  shows "(\<exists>r w'. fetch_avatar_url uid api_token sz w = Some (r, w') \<and> (\<forall>u. r \<noteq> Inr (Some u))) \<and>
         (\<exists>r w'. download_avatar cv e uid api_token sz w = Some (r, w') \<and>
            fs w' = fs w \<and> file_writes w' = file_writes w) \<and>
         (\<forall>d. retry_delay (api w 0) = Some d \<and> 0 < stack_room w \<longrightarrow>
            (\<exists>r' w3.
               fetch_avatar_url uid api_token sz
                 (w\<lparr>api := (\<lambda>n. api w (Suc n)),
                    trace := trace w @ [Api_get uid api_token, Slept d],
                    stack_room := stack_room w - 1\<rparr>) = Some (r', w3) \<and>
               fetch_avatar_url uid api_token sz w =
                 Some (case r' of Inl err \<Rightarrow> Inl err | Inr _ \<Rightarrow> Inr None,
                       w3\<lparr>stack_room := stack_room w\<rparr>)))"
proof -
  have a: "\<exists>r w'. fetch_avatar_url uid api_token sz w = Some (r, w') \<and> (\<forall>u. r \<noteq> Inr (Some u))"
    using assms by (rule fetch_rate_limited_no_url)
  have b: "\<exists>r w'. download_avatar cv e uid api_token sz w = Some (r, w') \<and>
            fs w' = fs w \<and> file_writes w' = file_writes w"
  proof -
    let ?w0 = "w\<lparr>trace := trace w @ [Slept (1 / 100)]\<rparr>"
    have "rate_limited (api ?w0 0)"
      using assms(2) by simp
    from fetch_rate_limited_no_url [OF assms(1) this, of api_token sz]
    obtain r1 w1 where f: "fetch_avatar_url uid api_token sz ?w0 = Some (r1, w1)"
      and n: "\<forall>u. r1 \<noteq> Inr (Some u)"
      by blast
    from download_avatar_no_url(1) [OF f n, of cv e] download_avatar_no_url(2,5) [OF f n]
    show ?thesis
      by blast
  qed
  have c: "\<exists>r' w3.
      fetch_avatar_url uid api_token sz
        (w\<lparr>api := (\<lambda>n. api w (Suc n)), trace := trace w @ [Api_get uid api_token, Slept d],
           stack_room := stack_room w - 1\<rparr>) = Some (r', w3) \<and>
      fetch_avatar_url uid api_token sz w =
        Some (case r' of Inl err \<Rightarrow> Inl err | Inr _ \<Rightarrow> Inr None, w3\<lparr>stack_room := stack_room w\<rparr>)"
    if "retry_delay (api w 0) = Some d" and "0 < stack_room w" for d
    using assms(1) that by (rule fetch_retry_outcome)
  from a b c show ?thesis
    by blast
qed

theorem fetch_avatar_url_rate_limit_discards_witness:
  "is_number ''123'' \<and>
   rate_limited (api (example_world [reply_rate_limit (5 / 2), reply_avatar ''abc''] [Cdn_body [1, 2, 3]]) 0) \<and>
   retry_delay (api (example_world [reply_rate_limit (5 / 2), reply_avatar ''abc''] [Cdn_body [1, 2, 3]]) 0) =
     Some (5 / 2) \<and>
   0 < stack_room (example_world [reply_rate_limit (5 / 2), reply_avatar ''abc''] [Cdn_body [1, 2, 3]]) \<and>
   (\<exists>r w'. fetch_avatar_url ''123'' ''tok'' 128
       (example_world [reply_rate_limit (5 / 2), reply_avatar ''abc''] [Cdn_body [1, 2, 3]]) = Some (r, w') \<and>
       (\<forall>u. r \<noteq> Inr (Some u))) \<and>
   (\<exists>r w'. download_avatar example_cv example_env ''123'' ''tok'' 128
       (example_world [reply_rate_limit (5 / 2), reply_avatar ''abc''] [Cdn_body [1, 2, 3]]) = Some (r, w') \<and>
       fs w' = fs (example_world [reply_rate_limit (5 / 2), reply_avatar ''abc''] [Cdn_body [1, 2, 3]]) \<and>
       file_writes w' =
         file_writes (example_world [reply_rate_limit (5 / 2), reply_avatar ''abc''] [Cdn_body [1, 2, 3]])) \<and>
   (\<exists>r' w3.
      fetch_avatar_url ''123'' ''tok'' 128
        ((example_world [reply_rate_limit (5 / 2), reply_avatar ''abc''] [Cdn_body [1, 2, 3]])
           \<lparr>api := (\<lambda>n. api (example_world [reply_rate_limit (5 / 2), reply_avatar ''abc'']
                                 [Cdn_body [1, 2, 3]]) (Suc n)),
            trace := trace (example_world [reply_rate_limit (5 / 2), reply_avatar ''abc'']
                              [Cdn_body [1, 2, 3]]) @
               [Api_get ''123'' ''tok'', Slept (5 / 2)],
            stack_room := stack_room (example_world [reply_rate_limit (5 / 2), reply_avatar ''abc'']
                                        [Cdn_body [1, 2, 3]]) - 1\<rparr>) = Some (r', w3) \<and>
      fetch_avatar_url ''123'' ''tok'' 128
        (example_world [reply_rate_limit (5 / 2), reply_avatar ''abc''] [Cdn_body [1, 2, 3]]) =
        Some (case r' of Inl err \<Rightarrow> Inl err | Inr _ \<Rightarrow> Inr None,
              w3\<lparr>stack_room := stack_room (example_world [reply_rate_limit (5 / 2), reply_avatar ''abc'']
                                            [Cdn_body [1, 2, 3]])\<rparr>)) \<and>
   map_option (\<lambda>(r, w). (r, trace w))
     (fetch_avatar_url ''123'' ''tok'' 128
        (example_world [reply_rate_limit (5 / 2), reply_avatar ''abc''] [Cdn_body [1, 2, 3]])) =
     Some (Inr None, [Api_get ''123'' ''tok'', Slept (5 / 2), Api_get ''123'' ''tok'']) \<and>
   map_option (\<lambda>(r, w). (r, trace w, fs w (Path ''C:'' [''app'', ''avatars'', ''0_123.png''])))
     (download_avatar example_cv example_env ''123'' ''tok'' 128
        (example_world [reply_rate_limit (5 / 2), reply_avatar ''abc''] [Cdn_body [1, 2, 3]])) =
     Some (Inr (), [Slept (1 / 100), Api_get ''123'' ''tok'', Slept (5 / 2), Api_get ''123'' ''tok''],
           None)"
proof -
  let ?W = "example_world [reply_rate_limit (5 / 2), reply_avatar ''abc''] [Cdn_body [1, 2, 3]]"
  have h1: "is_number ''123''"
    by code_simp
  have h2: "rate_limited (api ?W 0)"
    by code_simp
  have b1: "retry_delay (api ?W 0) = Some (5 / 2)"
    by code_simp
  have b2: "0 < stack_room ?W"
    by (simp add: example_world_def)
  have e1: "map_option (\<lambda>(r, w). (r, trace w)) (fetch_avatar_url ''123'' ''tok'' 128 ?W) =
     Some (Inr None, [Api_get ''123'' ''tok'', Slept (5 / 2), Api_get ''123'' ''tok''])"
    by code_simp
  have e2: "map_option (\<lambda>(r, w). (r, trace w, fs w (Path ''C:'' [''app'', ''avatars'', ''0_123.png''])))
     (download_avatar example_cv example_env ''123'' ''tok'' 128 ?W) =
     Some (Inr (), [Slept (1 / 100), Api_get ''123'' ''tok'', Slept (5 / 2), Api_get ''123'' ''tok''],
           None)"
    by code_simp
  from fetch_avatar_url_rate_limit_discards [OF h1 h2, of "''tok''" 128 example_cv example_env]
    h1 h2 b1 b2 e1 e2
  show ?thesis
    by blast
qed

text \<open>
  C2 as stated fails: a reply that is classified as a rate limit need not carry a
  \<open>retry_after\<close> that can be slept. Without the field, or with a negative one, the
  sleep raises and no retry is made, although the next reply would have been a success.
\<close>

theorem fetch_avatar_url_rate_limit_discards_counterexample:
  "rate_limited (Json (JObj [(''message'', JStr ''You are being rate limited.'')])) \<and>
   map_option (\<lambda>(r, w). (r, trace w))
     (fetch_avatar_url ''123'' ''tok'' 128
        (example_world
           [Json (JObj [(''message'', JStr ''You are being rate limited.'')]), reply_avatar ''abc''] [])) =
     Some (Inl (KeyError ''retry_after''), [Api_get ''123'' ''tok'']) \<and>
   rate_limited (reply_rate_limit (- 1)) \<and>
   map_option (\<lambda>(r, w). (r, trace w))
     (fetch_avatar_url ''123'' ''tok'' 128
        (example_world [reply_rate_limit (- 1), reply_avatar ''abc''] [])) =
     Some (Inl ValueError, [Api_get ''123'' ''tok''])"
  by code_simp

text \<open>
  C6. When the link resolver returns \<open>None\<close>, \<open>download_avatar\<close> returns normally in
  the world the resolver left: the files are as they were, the CDN has not been asked,
  and no CDN request and no file write has been recorded.
\<close>

theorem download_avatar_no_avatar:
  assumes "fetch_avatar_url uid api_token sz (w\<lparr>trace := trace w @ [Slept (1 / 100)]\<rparr>) =
             Some (Inr None, w')"
  shows "download_avatar cv e uid api_token sz w = Some (Inr (), w') \<and>
         fs w' = fs w \<and> cdn w' = cdn w \<and>
         cdn_requests w' = cdn_requests w \<and> file_writes w' = file_writes w"
proof -
  have n: "\<forall>u. (Inr None :: error + url option) \<noteq> Inr (Some u)"
    by simp
  from download_avatar_no_url(1) [OF assms n, of cv e] download_avatar_no_url(2-) [OF assms n]
  show ?thesis
    by simp
qed

theorem download_avatar_no_avatar_witness:
  "fetch_avatar_url ''123'' ''tok'' 128
     ((example_world [reply_rate_limit (5 / 2), reply_avatar ''abc''] [Cdn_body [1, 2, 3]])
        \<lparr>trace := trace (example_world [reply_rate_limit (5 / 2), reply_avatar ''abc''] [Cdn_body [1, 2, 3]]) @
           [Slept (1 / 100)]\<rparr>) =
     Some (Inr None,
           \<lparr>api = script Transport_failure [], cdn = script URLError [Cdn_body [1, 2, 3]],
            fs = Map.empty,
            trace = [Slept (1 / 100), Api_get ''123'' ''tok'', Slept (5 / 2), Api_get ''123'' ''tok''],
            stack_room = 980\<rparr>) \<and>
   download_avatar example_cv example_env ''123'' ''tok'' 128
     (example_world [reply_rate_limit (5 / 2), reply_avatar ''abc''] [Cdn_body [1, 2, 3]]) =
     Some (Inr (),
           \<lparr>api = script Transport_failure [], cdn = script URLError [Cdn_body [1, 2, 3]],
            fs = Map.empty,
            trace = [Slept (1 / 100), Api_get ''123'' ''tok'', Slept (5 / 2), Api_get ''123'' ''tok''],
            stack_room = 980\<rparr>)"
proof -
  let ?W = "example_world [reply_rate_limit (5 / 2), reply_avatar ''abc''] [Cdn_body [1, 2, 3]]"
  let ?W0 = "?W\<lparr>trace := trace ?W @ [Slept (1 / 100)]\<rparr>"
  let ?W' = "\<lparr>api = script Transport_failure [], cdn = script URLError [Cdn_body [1, 2, 3]],
            fs = Map.empty,
            trace = [Slept (1 / 100), Api_get ''123'' ''tok'', Slept (5 / 2), Api_get ''123'' ''tok''],
            stack_room = 980\<rparr>"
  have h1: "is_number ''123''"
    by code_simp
  have h2: "retry_delay (api ?W0 0) = Some (5 / 2)"
    by code_simp
  have h3: "0 < stack_room ?W0"
    by (simp add: example_world_def)
  have retry: "fetch_avatar_url ''123'' ''tok'' 128
      \<lparr>api = script Transport_failure [reply_avatar ''abc''],
       cdn = script URLError [Cdn_body [1, 2, 3]], fs = Map.empty,
       trace = [Slept (1 / 100), Api_get ''123'' ''tok'', Slept (5 / 2)], stack_room = 979\<rparr> =
      Some (Inr (Some (Avatar_url ''123'' (JStr ''abc'') 128)), ?W'\<lparr>stack_room := 979\<rparr>)"
    by (subst fetch_numeric [OF h1]) (simp add: api_request_def reply_avatar_def)
  have hyp: "fetch_avatar_url ''123'' ''tok'' 128 ?W0 = Some (Inr None, ?W')"
    by (subst fetch_retry [OF h1 h2 h3]) (simp add: example_world_def retry)
  from download_avatar_no_avatar [OF hyp, of example_cv example_env] hyp show ?thesis
    by simp
qed

text \<open>
  C7. When the bytes the CDN returns do not decode as an image (the buffer is empty, or
  \<open>imdecode\<close> gives \<open>None\<close> and \<open>imwrite\<close> rejects it), \<open>download_avatar\<close> raises
  the OpenCV error, which is not \<open>ConnectionError\<close>, and the files are as they were:
  no file write has been recorded.
\<close>

theorem download_avatar_decode_failure:
  assumes "fetch_avatar_url uid api_token sz (w\<lparr>trace := trace w @ [Slept (1 / 100)]\<rparr>) =
             Some (Inr (Some u), w1)"
    and "cdn w1 0 = Cdn_body buf"
    and "buf = [] \<or> decode_unchanged cv buf = None"
  shows "download_avatar cv e uid api_token sz w =
           Some (Inl Cv2Error,
                 w1\<lparr>cdn := (\<lambda>n. cdn w1 (Suc n)), trace := trace w1 @ [Cdn_get u]\<rparr>) \<and>
         Cv2Error \<noteq> ConnectionError \<and>
         fs (w1\<lparr>cdn := (\<lambda>n. cdn w1 (Suc n)), trace := trace w1 @ [Cdn_get u]\<rparr>) = fs w \<and>
         file_writes (w1\<lparr>cdn := (\<lambda>n. cdn w1 (Suc n)), trace := trace w1 @ [Cdn_get u]\<rparr>) =
           file_writes w"
proof -
  have d: "download_avatar cv e uid api_token sz w =
           Some (Inl Cv2Error,
                 w1\<lparr>cdn := (\<lambda>n. cdn w1 (Suc n)), trace := trace w1 @ [Cdn_get u]\<rparr>)"
    using assms unfolding download_avatar_unfold
    by (auto simp: cdn_request_def imdecode_def imwrite_def)
  from fetch_frame(1,4) [OF assms(1)]
  have "fs w1 = fs w" and "file_writes w1 = file_writes w"
    by (simp_all add: slept_frame)
  with d show ?thesis
    by (simp add: file_writes_def)
qed

theorem download_avatar_decode_failure_witness:
  "fetch_avatar_url ''123'' ''tok'' 128
     ((example_world [reply_avatar ''abc''] [Cdn_body [0, 1, 2]])
        \<lparr>trace := trace (example_world [reply_avatar ''abc''] [Cdn_body [0, 1, 2]]) @ [Slept (1 / 100)]\<rparr>) =
     Some (Inr (Some (Avatar_url ''123'' (JStr ''abc'') 128)),
           \<lparr>api = script Transport_failure [], cdn = script URLError [Cdn_body [0, 1, 2]],
            fs = Map.empty, trace = [Slept (1 / 100), Api_get ''123'' ''tok''],
            stack_room = 980\<rparr>) \<and>
   cdn \<lparr>api = script Transport_failure [], cdn = script URLError [Cdn_body [0, 1, 2]],
        fs = Map.empty, trace = [Slept (1 / 100), Api_get ''123'' ''tok''],
            stack_room = 980\<rparr> 0 = Cdn_body [0, 1, 2] \<and>
   ([0, 1, 2] = ([] :: bytes) \<or> decode_unchanged example_cv [0, 1, 2] = None) \<and>
   download_avatar example_cv example_env ''123'' ''tok'' 128
     (example_world [reply_avatar ''abc''] [Cdn_body [0, 1, 2]]) =
     Some (Inl Cv2Error,
           \<lparr>api = script Transport_failure [], cdn = script URLError [],
            fs = Map.empty,
            trace = [Slept (1 / 100), Api_get ''123'' ''tok'',
                     Cdn_get (Avatar_url ''123'' (JStr ''abc'') 128)],
            stack_room = 980\<rparr>)"
proof -
  let ?W = "example_world [reply_avatar ''abc''] [Cdn_body [0, 1, 2]]"
  let ?W1 = "\<lparr>api = script Transport_failure [], cdn = script URLError [Cdn_body [0, 1, 2]],
            fs = Map.empty, trace = [Slept (1 / 100), Api_get ''123'' ''tok''],
            stack_room = 980\<rparr>"
  have h0: "is_number ''123''"
    by code_simp
  have h1: "fetch_avatar_url ''123'' ''tok'' 128 (?W\<lparr>trace := trace ?W @ [Slept (1 / 100)]\<rparr>) =
     Some (Inr (Some (Avatar_url ''123'' (JStr ''abc'') 128)), ?W1)"
    by (subst fetch_numeric [OF h0]) (simp add: api_request_def reply_avatar_def example_world_def)
  have h2: "cdn ?W1 0 = Cdn_body [0, 1, 2]"
    by simp
  have h3: "[0, 1, 2] = ([] :: bytes) \<or> decode_unchanged example_cv [0, 1, 2] = None"
    by (simp add: example_cv_def)
  from download_avatar_decode_failure [OF h1 h2 h3, of example_env] h1 h2 h3 show ?thesis
    by simp
qed

subsection \<open>The numeric check\<close>

text \<open>
  C10. \<open>is_number\<close> holds exactly when \<open>float\<close> accepts the string. The forms
  \<open>2.5\<close>, \<open>1e5\<close>, \<open>inf\<close> and \<open>nan\<close> pass it, and for each of them
  \<open>fetch_avatar_url\<close> does not return at once: whenever it returns or raises, the
  lookup request for that identifier is the first thing it has done.
\<close>

theorem is_number_accepts_float_forms:
  "(is_number s \<longleftrightarrow> py_float s = Inr ()) \<and>
   is_number ''2.5'' \<and> is_number ''1e5'' \<and> is_number ''inf'' \<and> is_number ''nan'' \<and>
   (\<forall>uid \<in> set [''2.5'', ''1e5'', ''inf'', ''nan''].
      fetch_avatar_url uid api_token sz w \<noteq> Some (Inr None, w) \<and>
      (\<forall>r w'. fetch_avatar_url uid api_token sz w = Some (r, w') \<longrightarrow>
         prefix (trace w @ [Api_get uid api_token]) (trace w')))"
proof -
  have a: "is_number s \<longleftrightarrow> py_float s = Inr ()"
    by (simp add: is_number_def py_float_def)
  have n1: "is_number ''2.5''" by code_simp
  have n2: "is_number ''1e5''" by code_simp
  have n3: "is_number ''inf''" by code_simp
  have n4: "is_number ''nan''" by code_simp
  have p: "fetch_avatar_url uid api_token sz w \<noteq> Some (Inr None, w) \<and>
      (\<forall>r w'. fetch_avatar_url uid api_token sz w = Some (r, w') \<longrightarrow>
         prefix (trace w @ [Api_get uid api_token]) (trace w'))" if "is_number uid" for uid
    using fetch_numeric_requests [OF that, of api_token sz w] by fastforce
  from a n1 n2 n3 n4 p show ?thesis
    by simp
qed

theorem is_number_accepts_float_forms_witness:
  "''2.5'' \<in> set [''2.5'', ''1e5'', ''inf'', ''nan''] \<and>
   is_number ''2.5'' \<and> py_float ''2.5'' = Inr () \<and>
   (\<exists>r w'. fetch_avatar_url ''2.5'' ''tok'' 128 (example_world [reply_avatar ''abc''] []) = Some (r, w') \<and>
      prefix (trace (example_world [reply_avatar ''abc''] []) @ [Api_get ''2.5'' ''tok'']) (trace w'))"
proof -
  let ?W = "example_world [reply_avatar ''abc''] []"
  have h1: "''2.5'' \<in> set [''2.5'', ''1e5'', ''inf'', ''nan'']"
    by simp
  have e: "map_option fst (fetch_avatar_url ''2.5'' ''tok'' 128 ?W) =
             Some (Inr (Some (Avatar_url ''2.5'' (JStr ''abc'') 128)))"
    by code_simp
  then obtain r w' where f: "fetch_avatar_url ''2.5'' ''tok'' 128 ?W = Some (r, w')"
    by (cases "fetch_avatar_url ''2.5'' ''tok'' 128 ?W") auto
  from is_number_accepts_float_forms [of "''2.5''" "''tok''" 128 ?W] h1 f show ?thesis
    by auto
qed

subsection \<open>Numeric identifiers contain no path separator\<close>

lemma exponent_ok_chars:
  assumes "exponent_ok r" and "c \<in> set r"
  shows "float_char c"
proof (cases r)
  case Nil
  with assms(2) show ?thesis by simp
next
  case (Cons x xs)
  with assms(1) have x: "x = CHR ''e'' \<or> x = CHR ''E''" and d: "list_all is_digit (drop_sign xs)"
    by (simp_all add: exponent_ok_def)
  have "\<forall>y \<in> set xs. float_char y"
  proof (cases xs)
    case Nil
    then show ?thesis by simp
  next
    case (Cons y ys)
    with d show ?thesis
      by (auto simp: drop_sign_def float_char_def list_all_iff split: if_splits)
  qed
  with x assms(2) Cons show ?thesis
    by (auto simp: float_char_def)
qed

lemma digits_chars: "c \<in> set (takeWhile is_digit t) \<Longrightarrow> float_char c"
  by (auto simp: float_char_def dest: set_takeWhileD)

lemma decimal_ok_chars:
  assumes "decimal_ok t" and "c \<in> set t"
  shows "float_char c"
proof -
  let ?r1 = "dropWhile is_digit t"
  have t: "t = takeWhile is_digit t @ ?r1"
    by simp
  from assms(2) t have "c \<in> set (takeWhile is_digit t) \<or> c \<in> set ?r1"
    by (metis Un_iff set_append)
  then show ?thesis
  proof
    assume "c \<in> set (takeWhile is_digit t)"
    then show ?thesis by (rule digits_chars)
  next
    assume c: "c \<in> set ?r1"
    show ?thesis
    proof (cases ?r1)
      case Nil
      with c show ?thesis by simp
    next
      case (Cons x xs)
      show ?thesis
      proof (cases "x = CHR ''.''")
        case True
        with Cons assms(1) have e: "exponent_ok (dropWhile is_digit xs)"
          by (simp add: decimal_ok_def Let_def)
        have "xs = takeWhile is_digit xs @ dropWhile is_digit xs"
          by simp
        with c Cons True have "c = CHR ''.'' \<or> c \<in> set (takeWhile is_digit xs) \<or>
            c \<in> set (dropWhile is_digit xs)"
          by (metis Un_iff set_ConsD set_append)
        with e show ?thesis
          by (auto simp: float_char_def dest: exponent_ok_chars digits_chars)
      next
        case False
        with Cons assms(1) have "exponent_ok ?r1"
          by (simp add: decimal_ok_def Let_def)
        from exponent_ok_chars [OF this c] show ?thesis .
      qed
    qed
  qed
qed

lemma in_set_dropWhile: "x \<in> set xs \<Longrightarrow> \<not> P x \<Longrightarrow> x \<in> set (dropWhile P xs)"
  by (induction xs) auto

lemma in_set_strip: "c \<in> set s \<Longrightarrow> \<not> is_space c \<Longrightarrow> c \<in> set (strip s)"
  by (simp add: strip_def in_set_dropWhile)

lemma in_set_drop_sign:
  "c \<in> set s \<Longrightarrow> c \<noteq> CHR ''+'' \<Longrightarrow> c \<noteq> CHR ''-'' \<Longrightarrow> c \<in> set (drop_sign s)"
  by (cases s) (auto simp: drop_sign_def)

lemma sep_facts:
  assumes "is_sep c"
  shows "\<not> is_space c" and "c \<noteq> CHR ''_''" and "c \<noteq> CHR ''+''" and "c \<noteq> CHR ''-''"
    and "\<not> float_char c" and "lower_char c = c"
  using assms
  by (auto simp: is_sep_def is_space_def float_char_def is_digit_def lower_char_def ord_char_def)

lemma inf_or_nan_no_sep:
  assumes "is_inf_or_nan t" and "c \<in> set t"
  shows "\<not> is_sep c"
proof
  assume s: "is_sep c"
  from assms(2) have "lower_char c \<in> set (lower t)"
    by (simp add: lower_def)
  with sep_facts(6) [OF s] have "c \<in> set (lower t)"
    by simp
  with assms(1) s show False
    by (auto simp: is_inf_or_nan_def is_sep_def)
qed

lemma is_number_no_sep:
  assumes "is_number uid"
  shows "no_sep uid"
proof -
  let ?t = "drop_sign (strip (filter (\<lambda>c. c \<noteq> CHR ''_'') uid))"
  from assms have g: "is_inf_or_nan ?t \<or> decimal_ok ?t"
    by (simp add: is_number_def py_float_def float_grammar_def Let_def split: if_splits)
  have "\<not> is_sep c" if c: "c \<in> set uid" for c
  proof
    assume s: "is_sep c"
    from c sep_facts(2) [OF s] have "c \<in> set (filter (\<lambda>c. c \<noteq> CHR ''_'') uid)"
      by simp
    from in_set_strip [OF this sep_facts(1) [OF s]]
    have "c \<in> set ?t"
      by (rule in_set_drop_sign) (rule sep_facts [OF s])+
    with g s show False
      using inf_or_nan_no_sep decimal_ok_chars sep_facts(5) by blast
  qed
  then show ?thesis
    by (simp add: no_sep_def list_all_iff)
qed

subsection \<open>Cache paths\<close>

lemma split_seps_no_sep: "no_sep s \<Longrightarrow> split_seps s = [s]"
  by (induction s) (auto simp: no_sep_def)

lemma no_sep_append [simp]: "no_sep (xs @ ys) \<longleftrightarrow> no_sep xs \<and> no_sep ys"
  by (simp add: no_sep_def)

lemma digit_char_no_sep: "d < 10 \<Longrightarrow> \<not> is_sep (digit_char d)"
proof -
  assume "d < 10"
  then have "of_char (digit_char d) = 48 + d"
    by (simp add: digit_char_def)
  moreover have "of_char c = (47::nat) \<or> of_char c = (92::nat)" if "is_sep c" for c
    using that by (auto simp: is_sep_def)
  ultimately show ?thesis
    using \<open>d < 10\<close> by fastforce
qed

lemma no_sep_digits_of: "no_sep (digits_of n)"
proof (induction n rule: digits_of.induct)
  case (1 n)
  show ?case
  proof (cases "n < 10")
    case True
    then show ?thesis
      by (subst digits_of.simps) (simp add: no_sep_def digit_char_no_sep)
  next
    case False
    with 1 have "no_sep (digits_of (n div 10))"
      by simp
    moreover have "\<not> is_sep (digit_char (n mod 10))"
      by (rule digit_char_no_sep) simp
    ultimately show ?thesis
      using False by (subst digits_of.simps) (simp add: no_sep_def)
  qed
qed

lemma no_sep_str_int: "no_sep (str_int i)"
  using no_sep_digits_of by (simp add: str_int_def no_sep_def is_sep_def)

lemma no_sep_file_name:
  assumes "no_sep uid"
  shows "no_sep (str_int effect @ ''_'' @ uid @ ''.png'')"
  using assms no_sep_str_int [of effect] by (simp add: no_sep_def is_sep_def)

lemma str_int_digit: "0 \<le> i \<Longrightarrow> i \<le> 9 \<Longrightarrow> str_int i = [digit_char (nat i)]"
  by (simp add: str_int_def) (subst digits_of.simps, simp)

lemma path_of_str_file_name:
  assumes "no_sep s" and "2 \<le> length s"
  shows "path_of_str s = Path [] [s]"
proof -
  from assms(2) have "s \<noteq> []" and "s \<noteq> ''.''"
    by auto
  with split_seps_no_sep [OF assms(1)] show ?thesis
    by (simp add: path_of_str_def)
qed

lemma abs_dir_file:
  "abs_dir e [AVATAR_DIR e, Path [] [s]] =
     Path (anchor (joinpath (MAIN_DIR e) (AVATAR_DIR e))) (parts (joinpath (MAIN_DIR e) (AVATAR_DIR e)) @ [s])"
  by (simp add: abs_dir_def joinpath_def)

lemma name_abs_dir_file: "name (abs_dir e [AVATAR_DIR e, Path [] [s]]) = s"
  by (simp add: abs_dir_file name_def)

lemma rfind_dot_png: "rfind (CHR ''.'') (xs @ ''.png'') = int (length xs)"
  by (simp add: rfind_def)

lemma stem_png:
  assumes "name p = xs @ ''.png''" and "xs \<noteq> []"
  shows "stem p = xs"
  using assms by (simp add: stem_def rfind_dot_png Let_def)

lemma suffix_of_png:
  assumes "name p = xs @ ''.png''" and "xs \<noteq> []"
  shows "suffix_of p = ''.png''"
  using assms by (simp add: suffix_of_def rfind_dot_png Let_def)

text \<open>The cache path of an identifier without separators, and its name.\<close>

lemma get_avatar_dir_uid:
  assumes "no_sep uid"
  shows "get_avatar_dir e (Some uid) None effect =
           Inr (abs_dir e [AVATAR_DIR e, Path [] [str_int effect @ ''_'' @ uid @ ''.png'']])"
proof -
  have "no_sep (str_int effect @ ''_'' @ uid @ ''.png'')"
    using assms by (rule no_sep_file_name)
  moreover have "2 \<le> length (str_int effect @ ''_'' @ uid @ ''.png'')"
    by simp
  ultimately show ?thesis
    by (simp add: get_avatar_dir_def path_of_str_file_name del: append.simps)
qed

text \<open>Deriving a sibling path from a cache path whose effect code is written with one
  character.\<close>

lemma get_avatar_dir_og_dir:
  assumes "no_sep uid" and "name og_dir = c # ''_'' @ uid @ ''.png''"
  shows "get_avatar_dir e None (Some og_dir) effect =
           Inr (abs_dir e [AVATAR_DIR e, Path [] [str_int effect @ ''_'' @ uid @ ''.png'']])"
proof -
  have n: "name og_dir = (c # ''_'' @ uid) @ ''.png''"
    using assms(2) by simp
  have "stem og_dir = c # ''_'' @ uid"
    by (rule stem_png [OF n]) simp
  then have ne: "stem og_dir \<noteq> name og_dir"
    using assms(2) by simp
  have d: "drop 2 (name og_dir) = uid @ ''.png''"
    using assms(2) by simp
  have "no_sep (str_int effect @ ''_'' @ uid @ ''.png'')"
    using assms(1) by (rule no_sep_file_name)
  moreover have "2 \<le> length (str_int effect @ ''_'' @ uid @ ''.png'')"
    by simp
  ultimately have "path_of_str (str_int effect @ ''_'' @ uid @ ''.png'') =
      Path [] [str_int effect @ ''_'' @ uid @ ''.png'']"
    by (rule path_of_str_file_name)
  with ne d show ?thesis
    by (simp add: get_avatar_dir_def del: append.simps)
qed

text \<open>
  C4 (as amended). For an identifier without a path separator (by \<open>is_number_no_sep\<close>,
  every identifier that passes the numeric check) and an effect code from 0 to 9 (one
  character when written), what \<open>get_avatar_dir\<close> recovers from the cache
  path by \<open>og_dir.name[2:]\<close> is the identifier followed by \<open>.png\<close>, and the path it
  derives from the cache path for any effect code is the cache path of the identifier
  for that code.
\<close>

theorem get_avatar_dir_recovers_file_name:
  assumes "no_sep uid"
    and "0 \<le> effect" and "effect \<le> 9"
    and "get_avatar_dir e (Some uid) None effect = Inr p"
  shows "drop 2 (name p) = uid @ ''.png'' \<and>
         get_avatar_dir e None (Some p) effect' = get_avatar_dir e (Some uid) None effect'"
proof -
  from assms(4) have p: "p = abs_dir e [AVATAR_DIR e, Path [] [str_int effect @ ''_'' @ uid @ ''.png'']]"
    unfolding get_avatar_dir_uid [OF assms(1)] by simp
  have n: "name p = digit_char (nat effect) # ''_'' @ uid @ ''.png''"
    unfolding p name_abs_dir_file using str_int_digit [OF assms(2,3)] by simp
  from n have "drop 2 (name p) = uid @ ''.png''"
    by simp
  moreover have "get_avatar_dir e None (Some p) effect' = get_avatar_dir e (Some uid) None effect'"
    unfolding get_avatar_dir_og_dir [OF assms(1) n] get_avatar_dir_uid [OF assms(1)] ..
  ultimately show ?thesis
    by simp
qed

theorem get_avatar_dir_recovers_file_name_witness:
  "no_sep ''123'' \<and> (0::int) \<le> 1 \<and> (1::int) \<le> 9 \<and>
   get_avatar_dir example_env (Some ''123'') None 1 =
     Inr (Path ''C:'' [''app'', ''avatars'', ''1_123.png'']) \<and>
   drop 2 (name (Path ''C:'' [''app'', ''avatars'', ''1_123.png''])) = ''123'' @ ''.png'' \<and>
   get_avatar_dir example_env None (Some (Path ''C:'' [''app'', ''avatars'', ''1_123.png''])) 0 =
     get_avatar_dir example_env (Some ''123'') None 0"
proof -
  have h1: "no_sep ''123''"
    by code_simp
  have h2: "(0::int) \<le> 1" and h3: "(1::int) \<le> 9"
    by simp_all
  have h4: "get_avatar_dir example_env (Some ''123'') None 1 =
     Inr (Path ''C:'' [''app'', ''avatars'', ''1_123.png''])"
    by code_simp
  from get_avatar_dir_recovers_file_name [OF h1 h2 h3 h4, of 0] h1 h2 h3 h4 show ?thesis
    by blast
qed

text \<open>
  C4 as stated fails: what is recovered is never the identifier itself, and with an
  effect code of two characters the two-character cut leaves the underscore in, so the
  derived path is not the identifier's cache path either.
\<close>

theorem get_avatar_dir_recovery_counterexample:
  "get_avatar_dir example_env (Some ''123'') None 10 =
     Inr (Path ''C:'' [''app'', ''avatars'', ''10_123.png'']) \<and>
   drop 2 (name (Path ''C:'' [''app'', ''avatars'', ''10_123.png''])) = ''_123.png'' \<and>
   drop 2 (name (Path ''C:'' [''app'', ''avatars'', ''10_123.png''])) \<noteq> ''123'' \<and>
   get_avatar_dir example_env None (Some (Path ''C:'' [''app'', ''avatars'', ''10_123.png''])) 1 =
     Inr (Path ''C:'' [''app'', ''avatars'', ''1__123.png'']) \<and>
   get_avatar_dir example_env (Some ''123'') None 1 =
     Inr (Path ''C:'' [''app'', ''avatars'', ''1_123.png''])"
  by code_simp

subsection \<open>The effect processor\<close>

text \<open>
  C8. With effect code 0 the effect processor returns the path it was given and leaves
  the world as it was: no file is written.
\<close>

theorem artistic_effect_zero:
  "artistic_effect cv e og_dir 0 w = (Inr og_dir, w)"
  by (simp add: artistic_effect_def)

lemma of_char_digit_char: "d < 10 \<Longrightarrow> of_char (digit_char d) = 48 + d"
  by (simp add: digit_char_def)

lemma digits_of_not_Nil: "digits_of n \<noteq> []"
  by (subst digits_of.simps) simp

lemma digits_of_zero_iff: "digits_of n = ''0'' \<longleftrightarrow> n = 0"
proof (cases "n < 10")
  case True
  have z: "(of_char (CHR ''0'') :: nat) = 48"
    by simp
  from True have "digits_of n = [digit_char n]"
    by (subst digits_of.simps) simp
  moreover have "digit_char n = CHR ''0'' \<longleftrightarrow> n = 0"
  proof
    assume "digit_char n = CHR ''0''"
    then have "(of_char (digit_char n) :: nat) = 48"
      by (simp only: z)
    with of_char_digit_char [OF True] show "n = 0"
      by simp
  next
    have "digit_char 0 = CHR ''0''"
      by code_simp
    moreover assume "n = 0"
    ultimately show "digit_char n = CHR ''0''"
      by simp
  qed
  ultimately show ?thesis
    by simp
next
  case False
  then have "digits_of n = digits_of (n div 10) @ [digit_char (n mod 10)]"
    by (subst digits_of.simps) simp
  with digits_of_not_Nil [of "n div 10"] False show ?thesis
    by (cases "digits_of (n div 10)") auto
qed

lemma str_int_zero_iff: "str_int i = ''0'' \<longleftrightarrow> i = 0"
  by (auto simp: str_int_def digits_of_zero_iff)

text \<open>The cache paths of an identifier for two effect codes differ when one of the codes
  is 0 and the other is not.\<close>

lemma cache_path_not_base:
  assumes "effect \<noteq> 0"
  shows "abs_dir e [AVATAR_DIR e, Path [] [str_int effect @ ''_'' @ uid @ ''.png'']] \<noteq>
         abs_dir e [AVATAR_DIR e, Path [] [str_int 0 @ ''_'' @ uid @ ''.png'']]"
proof
  assume "abs_dir e [AVATAR_DIR e, Path [] [str_int effect @ ''_'' @ uid @ ''.png'']] =
         abs_dir e [AVATAR_DIR e, Path [] [str_int 0 @ ''_'' @ uid @ ''.png'']]"
  then have "name (abs_dir e [AVATAR_DIR e, Path [] [str_int effect @ ''_'' @ uid @ ''.png'']]) =
         name (abs_dir e [AVATAR_DIR e, Path [] [str_int 0 @ ''_'' @ uid @ ''.png'']])"
    by simp
  then have "str_int effect @ (''_'' @ uid @ ''.png'') = str_int 0 @ (''_'' @ uid @ ''.png'')"
    unfolding name_abs_dir_file .
  then have "str_int effect = str_int 0"
    by (simp only: append_same_eq)
  moreover have "str_int 0 = ''0''"
    using str_int_zero_iff [of 0] by simp
  ultimately show False
    using assms str_int_zero_iff [of effect] by simp
qed

text \<open>
  C9 (as amended). For the effect-0 cache path of an identifier without a path
  separator whose file exists, is not empty and decodes, and whose image, converted to
  colour as \<open>imread\<close> does, the \<open>.png\<close> writer encodes, and for an effect code other
  than 0 and 1, the effect processor does not fail. It applies no transform of its own:
  what it writes is the encoding of the stored image as \<open>imread\<close> converted it. It
  writes that to the identifier's cache path for the code, which is not the source
  path, and returns that path. The file written is the source file, byte for byte, when
  the stored image is already in \<open>imread\<close>'s colour format and the source file is its
  \<open>.png\<close> encoding.
\<close>

theorem artistic_effect_unrecognized:
  assumes "effect \<noteq> 0" and "effect \<noteq> 1"
    and "no_sep uid"
    and "get_avatar_dir e (Some uid) None 0 = Inr og_dir"
    and "fs w og_dir = Some buf" and "buf \<noteq> []"
    and "decode_unchanged cv buf = Some img"
    and "encode cv ''.png'' (to_color cv img) = Some out"
    and "get_avatar_dir e (Some uid) None effect = Inr fx_dir"
  shows "artistic_effect cv e og_dir effect w =
           (Inr fx_dir, w\<lparr>fs := (fs w)(fx_dir \<mapsto> out), trace := trace w @ [File_write fx_dir]\<rparr>) \<and>
         fx_dir \<noteq> og_dir \<and>
         (to_color cv img = img \<and> encode cv ''.png'' img = Some buf \<longrightarrow> out = buf)"
proof -
  from assms(4) have og: "og_dir = abs_dir e [AVATAR_DIR e, Path [] [str_int 0 @ ''_'' @ uid @ ''.png'']]"
    unfolding get_avatar_dir_uid [OF assms(3)] by simp
  have n: "name og_dir = digit_char (nat 0) # ''_'' @ uid @ ''.png''"
    unfolding og name_abs_dir_file using str_int_digit [of 0] by simp
  have fx: "get_avatar_dir e None (Some og_dir) effect = Inr fx_dir"
    unfolding get_avatar_dir_og_dir [OF assms(3) n] using assms(9)
    unfolding get_avatar_dir_uid [OF assms(3)] .
  from assms(9) have fxd: "fx_dir = abs_dir e [AVATAR_DIR e, Path [] [str_int effect @ ''_'' @ uid @ ''.png'']]"
    unfolding get_avatar_dir_uid [OF assms(3)] by simp
  then have "name fx_dir = (str_int effect @ ''_'' @ uid) @ ''.png''"
    by (simp add: name_abs_dir_file)
  then have sfx: "suffix_of fx_dir = ''.png''"
    by (rule suffix_of_png) simp
  have rd: "imread cv og_dir w = Some (to_color cv img)"
    using assms(5-7) by (simp add: imread_def)
  have a: "artistic_effect cv e og_dir effect w =
           (Inr fx_dir, w\<lparr>fs := (fs w)(fx_dir \<mapsto> out), trace := trace w @ [File_write fx_dir]\<rparr>)"
    using assms(1,2,8) by (simp add: artistic_effect_def rd fx imwrite_def sfx)
  have b: "fx_dir \<noteq> og_dir"
    unfolding fxd og using assms(1) by (rule cache_path_not_base)
  have c: "out = buf" if "to_color cv img = img" and "encode cv ''.png'' img = Some buf"
    using that assms(8) by simp
  from a b c show ?thesis
    by blast
qed

theorem artistic_effect_unrecognized_witness:
  "(7::int) \<noteq> 0 \<and> (7::int) \<noteq> 1 \<and> no_sep ''123'' \<and>
   get_avatar_dir example_env (Some ''123'') None 0 =
     Inr (Path ''C:'' [''app'', ''avatars'', ''0_123.png'']) \<and>
   fs ((example_world [] [])\<lparr>fs := [Path ''C:'' [''app'', ''avatars'', ''0_123.png''] \<mapsto> [3, 10, 20, 30]]\<rparr>)
     (Path ''C:'' [''app'', ''avatars'', ''0_123.png'']) = Some [3, 10, 20, 30] \<and>
   [3, 10, 20, 30] \<noteq> ([] :: bytes) \<and>
   decode_unchanged example_cv [3, 10, 20, 30] = Some (3, [10, 20, 30]) \<and>
   to_color example_cv (3, [10, 20, 30]) = (3, [10, 20, 30]) \<and>
   encode example_cv ''.png'' (3, [10, 20, 30]) = Some [3, 10, 20, 30] \<and>
   get_avatar_dir example_env (Some ''123'') None 7 =
     Inr (Path ''C:'' [''app'', ''avatars'', ''7_123.png'']) \<and>
   artistic_effect example_cv example_env (Path ''C:'' [''app'', ''avatars'', ''0_123.png'']) 7
     ((example_world [] [])\<lparr>fs := [Path ''C:'' [''app'', ''avatars'', ''0_123.png''] \<mapsto> [3, 10, 20, 30]]\<rparr>) =
     (Inr (Path ''C:'' [''app'', ''avatars'', ''7_123.png'']),
      (example_world [] [])
        \<lparr>fs := [Path ''C:'' [''app'', ''avatars'', ''0_123.png''] \<mapsto> [3, 10, 20, 30],
                Path ''C:'' [''app'', ''avatars'', ''7_123.png''] \<mapsto> [3, 10, 20, 30]],
         trace := [File_write (Path ''C:'' [''app'', ''avatars'', ''7_123.png''])]\<rparr>) \<and>
   Path ''C:'' [''app'', ''avatars'', ''7_123.png''] \<noteq> Path ''C:'' [''app'', ''avatars'', ''0_123.png'']"
proof -
  let ?og = "Path ''C:'' [''app'', ''avatars'', ''0_123.png'']"
  let ?fx = "Path ''C:'' [''app'', ''avatars'', ''7_123.png'']"
  let ?W = "(example_world [] [])\<lparr>fs := [?og \<mapsto> [3, 10, 20, 30]]\<rparr>"
  have h1: "(7::int) \<noteq> 0" and h2: "(7::int) \<noteq> 1"
    by simp_all
  have h3: "no_sep ''123''"
    by code_simp
  have h4: "get_avatar_dir example_env (Some ''123'') None 0 = Inr ?og"
    by code_simp
  have h5: "fs ?W ?og = Some [3, 10, 20, 30]"
    by simp
  have h6: "[3, 10, 20, 30] \<noteq> ([] :: bytes)"
    by simp
  have h7: "decode_unchanged example_cv [3, 10, 20, 30] = Some (3, [10, 20, 30])"
    by (simp add: example_cv_def)
  have c: "to_color example_cv (3, [10, 20, 30]) = (3, [10, 20, 30])"
    by (simp add: example_cv_def)
  have e: "encode example_cv ''.png'' (3, [10, 20, 30]) = Some [3, 10, 20, 30]"
    by (simp add: example_cv_def)
  have h8: "encode example_cv ''.png'' (to_color example_cv (3, [10, 20, 30])) = Some [3, 10, 20, 30]"
    by (simp only: c e)
  have h9: "get_avatar_dir example_env (Some ''123'') None 7 = Inr ?fx"
    by code_simp
  from artistic_effect_unrecognized [OF h1 h2 h3 h4 h5 h6 h7 h8 h9] h1 h2 h3 h4 h5 h6 h7 c e h9
  show ?thesis
    by (simp add: example_world_def)
qed

text \<open>
  C9 as stated fails. For a cache path where no file is stored, as after a download
  that found no avatar, \<open>imread\<close> gives \<open>None\<close> and \<open>imwrite\<close> raises whatever the
  codec: the call fails and writes nothing. And a stored image with an alpha channel is
  not passed through as it is: the copy has three channels.
\<close>

theorem artistic_effect_unrecognized_counterexample:
  "get_avatar_dir example_env (Some ''123'') None 0 =
     Inr (Path ''C:'' [''app'', ''avatars'', ''0_123.png'']) \<and>
   fs (example_world [] []) (Path ''C:'' [''app'', ''avatars'', ''0_123.png'']) = None \<and>
   fst (artistic_effect example_cv example_env (Path ''C:'' [''app'', ''avatars'', ''0_123.png'']) 7
          (example_world [] [])) = Inl Cv2Error \<and>
   trace (snd (artistic_effect example_cv example_env (Path ''C:'' [''app'', ''avatars'', ''0_123.png'']) 7
          (example_world [] []))) = [] \<and>
   fst (artistic_effect example_cv example_env (Path ''C:'' [''app'', ''avatars'', ''0_123.png'']) 7
          ((example_world [] [])
             \<lparr>fs := [Path ''C:'' [''app'', ''avatars'', ''0_123.png''] \<mapsto> [4, 10, 20, 30, 255]]\<rparr>)) =
     Inr (Path ''C:'' [''app'', ''avatars'', ''7_123.png'']) \<and>
   fs (snd (artistic_effect example_cv example_env (Path ''C:'' [''app'', ''avatars'', ''0_123.png'']) 7
          ((example_world [] [])
             \<lparr>fs := [Path ''C:'' [''app'', ''avatars'', ''0_123.png''] \<mapsto> [4, 10, 20, 30, 255]]\<rparr>)))
     (Path ''C:'' [''app'', ''avatars'', ''7_123.png'']) = Some [3, 10, 20, 30]"
  by code_simp

end
